theory Spec2Isabelle
  imports Complex_Main
begin

section \<open>Values of the host language\<close>

text \<open>
  A JavaScript \<^verbatim>\<open>number\<close> is modelled as a real: the counters, ids and page numbers of
  the program are only compared, incremented and decremented, and rounding of IEEE
  doubles is outside the model.
\<close>

type_synonym number = real

text \<open>
  What \<^verbatim>\<open>response.json()\<close> hands back: a parsed JSON value. \<open>JNum x\<close> carries the
  number the parser produced; \<open>JObj\<close> lists the members in the order of the text.
\<close>

datatype json =
    JNull
  | JBool bool
  | JNum number
  | JStr string
  | JArr "json list"
  | JObj "(string \<times> json) list"

text \<open>Truthiness of a parsed JSON value, as \<^verbatim>\<open>||\<close> and \<^verbatim>\<open>if\<close> test it.\<close>

fun truthy :: "json \<Rightarrow> bool" where
  "truthy JNull = False"
| "truthy (JBool b) = b"
| "truthy (JNum x) = (x \<noteq> 0)"
| "truthy (JStr s) = (s \<noteq> [])"
| "truthy (JArr xs) = True"
| "truthy (JObj kvs) = True"

text \<open>\<^verbatim>\<open>a || b\<close> where \<open>a\<close> is the result of a property read (\<open>None\<close> is \<^verbatim>\<open>undefined\<close>).\<close>

definition js_or :: "json option \<Rightarrow> json \<Rightarrow> json" where
  "js_or a b = (case a of None \<Rightarrow> b | Some v \<Rightarrow> if truthy v then v else b)"

text \<open>
  A thrown value: an \<^verbatim>\<open>Error\<close> instance with its \<^verbatim>\<open>name\<close> and \<^verbatim>\<open>message\<close>, or
  anything else (\<^verbatim>\<open>error instanceof Error\<close> is false).
\<close>

datatype js_thrown = JsError string string | JsOther

text \<open>
  Reading one of the properties \<^verbatim>\<open>data\<close>, \<^verbatim>\<open>message\<close>, \<^verbatim>\<open>errors\<close> of a parsed body.
  On \<^verbatim>\<open>null\<close> the read throws a TypeError (the text is the one V8 produces); on an
  object it is the member of that name, the last one when the text repeats a key; on a
  number, string, boolean or array none of the three names exists.
\<close>

fun get_prop :: "json \<Rightarrow> string \<Rightarrow> js_thrown + json option" where
  "get_prop JNull k =
     Inl (JsError ''TypeError'' (''Cannot read properties of null (reading '' @ [CHR 0x27] @ k @ [CHR 0x27] @ '')''))"
| "get_prop (JObj kvs) k = Inr (map_of (rev kvs) k)"
| "get_prop (JBool b) k = Inr None"
| "get_prop (JNum x) k = Inr None"
| "get_prop (JStr s) k = Inr None"
| "get_prop (JArr xs) k = Inr None"

section \<open>Transport: src/lib/api.ts, class ApiClient\<close>

subsection \<open>Configuration (src/config/api.ts)\<close>

definition API_CONFIG_BASE_URL :: "string option \<Rightarrow> string" where
  \<comment> \<open>\<^verbatim>\<open>process.env.NEXT_PUBLIC_API_URL || 'http://localhost:8000/api'\<close>\<close>
  "API_CONFIG_BASE_URL env_url =
     (case env_url of
        None \<Rightarrow> ''http://localhost:8000/api''
      | Some u \<Rightarrow> if u = [] then ''http://localhost:8000/api'' else u)"


definition ENDPOINTS_POSTS :: string where
  "ENDPOINTS_POSTS = ''/post''"

definition API_CONFIG_TIMEOUT :: nat where
  "API_CONFIG_TIMEOUT = 10000"

record api_client =
  baseURL :: string
  timeout :: nat

definition new_ApiClient :: "string option \<Rightarrow> api_client" where
  "new_ApiClient env_url =
     \<lparr>baseURL = API_CONFIG_BASE_URL env_url, timeout = API_CONFIG_TIMEOUT\<rparr>"

subsection \<open>The credential store\<close>

text \<open>
  The browser side of the token: the \<^verbatim>\<open>auth_token\<close> item of \<^verbatim>\<open>localStorage\<close> and the
  \<^verbatim>\<open>auth_token\<close> cookie. \<open>None\<close> for the window is \<^verbatim>\<open>typeof window === 'undefined'\<close>.
\<close>

record browser =
  localStorage_auth_token :: "string option"
  cookie_auth_token :: "string option"

type_synonym window = "browser option"

text \<open>
  Where the client runs: with a storage that can be read (or with no window at all), or
  in a window whose settings deny the page its storage, where evaluating
  \<^verbatim>\<open>localStorage\<close> throws (a \<^verbatim>\<open>SecurityError\<close>); \<open>StorageDenied\<close> carries the thrown
  value. The methods below test \<^verbatim>\<open>typeof window\<close> and nothing else before they touch
  \<^verbatim>\<open>localStorage\<close>, so there the exception leaves the method.
\<close>

datatype host = Storage window | StorageDenied js_thrown

definition getToken :: "host \<Rightarrow> js_thrown + string option" where
  "getToken h =
     (case h of
        StorageDenied e \<Rightarrow> Inl e
      | Storage w \<Rightarrow> Inr (case w of None \<Rightarrow> None | Some b \<Rightarrow> localStorage_auth_token b))"


definition isAuthenticated :: "host \<Rightarrow> js_thrown + bool" where
  "isAuthenticated h =
     (case getToken h of
        Inl e \<Rightarrow> Inl e
      | Inr None \<Rightarrow> Inr False
      | Inr (Some t) \<Rightarrow> Inr (t \<noteq> []))"

subsection \<open>Requests and what the network answers\<close>

record upload =
  upload_name :: string
  upload_type :: string
  upload_size :: nat

datatype form_value = FormText string | FormFile upload

text \<open>
  A request body: \<open>JsonBody j\<close> stands for the string \<^verbatim>\<open>JSON.stringify(j)\<close>, \<open>FormBody\<close>
  for a \<^verbatim>\<open>FormData\<close> with its appended entries.
\<close>

datatype req_body = JsonBody json | FormBody "(string \<times> form_value) list"

text \<open>The \<^verbatim>\<open>RequestInit\<close> a caller passes; \<open>None\<close> is a property that is not there.\<close>

record request_init =
  init_method :: "string option"
  init_headers :: "(string \<rightharpoonup> string) option"
  init_body :: "req_body option"

definition no_init :: request_init where
  "no_init = \<lparr>init_method = None, init_headers = None, init_body = None\<rparr>"

text \<open>The arguments of one \<^verbatim>\<open>fetch\<close> call (the abort signal is always attached).\<close>

record http_request =
  req_url :: string
  req_method :: "string option"
  req_headers :: "string \<rightharpoonup> string"
  req_body :: "req_body option"

text \<open>
  What the awaited \<^verbatim>\<open>fetch\<close> and \<^verbatim>\<open>response.json()\<close> produce. The promise of
  \<^verbatim>\<open>fetch\<close> rejects with a thrown value (a connection failure, or the abort the timer
  fires, an Error named \<^verbatim>\<open>AbortError\<close>), or resolves to a response with a status whose
  \<^verbatim>\<open>json()\<close> in turn rejects (a body that is no JSON) or resolves to a parsed value. Which
  of these happens, and when, is the environment's choice: the network is a function from
  the request to its outcome.
\<close>

datatype fetch_result =
    FetchRejected js_thrown
  | FetchResolved nat "js_thrown + json"

type_synonym network = "http_request \<Rightarrow> fetch_result"

definition response_ok :: "nat \<Rightarrow> bool" where
  "response_ok status = (200 \<le> status \<and> status \<le> 299)"

text \<open>
  \<^verbatim>\<open>ApiResponse<T>\<close>. The transport fills it from the parsed body, whatever that holds
  (\<open>envelope\<close>); the typed methods of the client assert the payload type \<open>'d\<close> without a
  check, and the callers read \<^verbatim>\<open>message\<close> as a string.
\<close>

record ('d, 'm) api_response =
  success :: bool
  data :: "'d option"
  message :: "'m option"
  errors :: "json option"

type_synonym envelope = "(json, json) api_response"

subsection \<open>request\<close>

text \<open>
  The headers of \<^verbatim>\<open>config\<close>: the spread \<^verbatim>\<open>...options\<close> comes after the \<^verbatim>\<open>headers\<close>
  key, so headers given by the caller replace the two defaults; the bearer token is
  added when the \<open>token\<close> that \<^verbatim>\<open>getToken()\<close> returned is truthy.
\<close>

definition request_headers :: "string option \<Rightarrow> request_init \<Rightarrow> (string \<rightharpoonup> string)" where
  "request_headers token options =
     (let headers = (case init_headers options of
                       None \<Rightarrow> [''Content-Type'' \<mapsto> ''application/json'', ''Accept'' \<mapsto> ''application/json'']
                     | Some h \<Rightarrow> h)
      in case token of
           None \<Rightarrow> headers
         | Some t \<Rightarrow>
             if t = [] then headers
             else headers(''Authorization'' \<mapsto> ''Bearer '' @ t))"

definition request_fetch :: "api_client \<Rightarrow> string option \<Rightarrow> string \<Rightarrow> request_init \<Rightarrow> http_request" where
  "request_fetch self token endpoint options =
     \<lparr>req_url = baseURL self @ endpoint,
      req_method = init_method options,
      req_headers = request_headers token options,
      req_body = init_body options\<rparr>"

text \<open>
  The \<^verbatim>\<open>try\<close> block from the settled \<^verbatim>\<open>fetch\<close> on: \<open>Inl\<close> is a value thrown inside it,
  \<open>Inr\<close> the envelope it returns.
\<close>

definition request_try :: "fetch_result \<Rightarrow> js_thrown + envelope" where
  "request_try r =
     (case r of
        FetchRejected e \<Rightarrow> Inl e
      | FetchResolved status parsed \<Rightarrow>
          (case parsed of
             Inl e \<Rightarrow> Inl e
           | Inr body \<Rightarrow>
               if \<not> response_ok status then
                 (case get_prop body ''message'' of
                    Inl e \<Rightarrow> Inl e
                  | Inr m \<Rightarrow>
                      (case get_prop body ''errors'' of
                         Inl e \<Rightarrow> Inl e
                       | Inr es \<Rightarrow>
                           Inr \<lparr>success = False, data = None,
                                message = Some (js_or m (JStr ''An error occurred'')),
                                errors = es\<rparr>))
               else
                 (case get_prop body ''data'' of
                    Inl e \<Rightarrow> Inl e
                  | Inr d \<Rightarrow>
                      (case get_prop body ''message'' of
                         Inl e \<Rightarrow> Inl e
                       | Inr m \<Rightarrow>
                           Inr \<lparr>success = True, data = Some (js_or d body),
                                message = m, errors = None\<rparr>))))"

text \<open>The \<^verbatim>\<open>catch\<close> block.\<close>

definition request_catch :: "js_thrown \<Rightarrow> js_thrown + envelope" where
  "request_catch error =
     (case error of
        JsError name msg \<Rightarrow>
          if name = ''AbortError'' then
            Inr \<lparr>success = False, data = None,
                 message = Some (JStr ''Request timeout. Please try again.''), errors = None\<rparr>
          else
            Inr \<lparr>success = False, data = None,
                 message = Some (JStr (if msg = [] then ''Network error occurred'' else msg)),
                 errors = None\<rparr>
      | JsOther \<Rightarrow>
          Inr \<lparr>success = False, data = None,
               message = Some (JStr ''An unexpected error occurred''), errors = None\<rparr>)"

text \<open>
  \<open>Inl\<close> in the result of a method is an exception that reaches its caller. Of the
  statements of \<^verbatim>\<open>request\<close> before its \<^verbatim>\<open>try\<close>, the url and \<^verbatim>\<open>config\<close> build values;
  \<^verbatim>\<open>this.getToken()\<close> can throw, and what it throws is not caught. Everything from
  \<^verbatim>\<open>new AbortController()\<close> to the last \<^verbatim>\<open>return\<close> is inside the \<^verbatim>\<open>try\<close>.
\<close>

definition try_catch :: "('e + 'a) \<Rightarrow> ('e \<Rightarrow> 'e + 'a) \<Rightarrow> 'e + 'a" where
  "try_catch block handler = (case block of Inl e \<Rightarrow> handler e | Inr v \<Rightarrow> Inr v)"

definition request :: "api_client \<Rightarrow> network \<Rightarrow> host \<Rightarrow> string \<Rightarrow> request_init \<Rightarrow> js_thrown + envelope" where
  "request self net h endpoint options =
     (case getToken h of
        Inl e \<Rightarrow> Inl e
      | Inr token \<Rightarrow>
          try_catch (request_try (net (request_fetch self token endpoint options))) request_catch)"

subsection \<open>The methods of the client the properties below are about\<close>


text \<open>
  \<^verbatim>\<open>getPosts()\<close> is declared without parameters: what a caller passes (\<open>arguments\<close>) is
  not read.
\<close>

definition getPosts :: "api_client \<Rightarrow> network \<Rightarrow> host \<Rightarrow> number list \<Rightarrow> js_thrown + envelope" where
  "getPosts self net h arguments = request self net h ENDPOINTS_POSTS no_init"

definition getPosts_fetch :: "api_client \<Rightarrow> string option \<Rightarrow> number list \<Rightarrow> http_request" where
  "getPosts_fetch self token arguments = request_fetch self token ENDPOINTS_POSTS no_init"

text \<open>
  \<^verbatim>\<open>createPostWithFile\<close> repeats the body of \<^verbatim>\<open>request\<close> line by line, with its own
  \<^verbatim>\<open>config\<close>: method POST, the form as body, and no content type.
\<close>

definition createPostWithFile_fetch :: "api_client \<Rightarrow> string option \<Rightarrow> (string \<times> form_value) list \<Rightarrow> http_request" where
  "createPostWithFile_fetch self token formData =
     \<lparr>req_url = baseURL self @ ENDPOINTS_POSTS,
      req_method = Some ''POST'',
      req_headers =
        (case token of
           None \<Rightarrow> [''Accept'' \<mapsto> ''application/json'']
         | Some t \<Rightarrow>
             if t = [] then [''Accept'' \<mapsto> ''application/json'']
             else [''Accept'' \<mapsto> ''application/json'', ''Authorization'' \<mapsto> ''Bearer '' @ t]),
      req_body = Some (FormBody formData)\<rparr>"

definition createPostWithFile :: "api_client \<Rightarrow> network \<Rightarrow> host \<Rightarrow> (string \<times> form_value) list \<Rightarrow> js_thrown + envelope" where
  "createPostWithFile self net h formData =
     (case getToken h of
        Inl e \<Rightarrow> Inl e
      | Inr token \<Rightarrow>
          try_catch (request_try (net (createPostWithFile_fetch self token formData))) request_catch)"

subsection \<open>The timer\<close>

text \<open>
  Lines 37 to 47 of \<^verbatim>\<open>request\<close> with their instants, in milliseconds after the call. An
  \<open>exchange\<close> is what the network would do with a request that nobody aborts: the
  instant at which the promise of \<^verbatim>\<open>fetch\<close> settles (\<open>None\<close>: never) and with what (a
  thrown value, or the status of the response), and the instant at which
  \<^verbatim>\<open>response.json()\<close> settles (\<open>None\<close>: never) and with what.
\<close>

record exchange =
  fetch_at :: "nat option"
  fetch_gives :: "js_thrown + nat"
  json_at :: "nat option"
  json_gives :: "js_thrown + json"

type_synonym timed_network = "http_request \<Rightarrow> exchange"

definition abort_error :: js_thrown where
  "abort_error = JsError ''AbortError'' ''signal is aborted without reason''"

text \<open>
  \<^verbatim>\<open>setTimeout(() => controller.abort(), ms)\<close>, \<^verbatim>\<open>await fetch\<close>, \<^verbatim>\<open>clearTimeout\<close>,
  \<^verbatim>\<open>await response.json()\<close>. When \<^verbatim>\<open>fetch\<close> has settled before the timer is due, a
  resolved response clears the timer and the body is then awaited with no timer left; when
  it has not, the timer aborts the request in flight and \<^verbatim>\<open>fetch\<close> rejects with the
  AbortError at that instant. The result is the instant at which the awaits are over,
  whether the request was aborted in flight, and what the awaits produced; \<open>None\<close> when
  an await never settles.
\<close>

definition awaits :: "nat \<Rightarrow> exchange \<Rightarrow> (nat \<times> bool \<times> fetch_result) option" where
  "awaits ms x =
     (case fetch_at x of
        None \<Rightarrow> Some (ms, True, FetchRejected abort_error)
      | Some t \<Rightarrow>
          if t < ms then
            (case fetch_gives x of
               Inl e \<Rightarrow> Some (t, False, FetchRejected e)
             | Inr status \<Rightarrow>
                 (case json_at x of
                    None \<Rightarrow> None
                  | Some t' \<Rightarrow> Some (max t t', False, FetchResolved status (json_gives x))))
          else Some (ms, True, FetchRejected abort_error))"

text \<open>
  \<^verbatim>\<open>request\<close> on the clock: the instant at which the call settles, whether the request
  was aborted in flight, and the result; \<open>None\<close> when the call never settles.
\<close>

definition request_timed :: "api_client \<Rightarrow> timed_network \<Rightarrow> host \<Rightarrow> string \<Rightarrow> request_init \<Rightarrow> (nat \<times> bool \<times> (js_thrown + envelope)) option" where
  "request_timed self net h endpoint options =
     (case getToken h of
        Inl e \<Rightarrow> Some (0, False, Inl e)
      | Inr token \<Rightarrow>
          (case awaits (timeout self) (net (request_fetch self token endpoint options)) of
             None \<Rightarrow> None
           | Some (t, a, r) \<Rightarrow> Some (t, a, try_catch (request_try r) request_catch)))"

section \<open>The feed page: state and handlers\<close>

subsection \<open>Data (src/config/api.ts)\<close>

record Author =
  author_id :: number
  author_name :: string

record Comment =
  comment_id :: number
  comment_post_id :: number
  comment_user_id :: number
  comment_content :: string
  comment_created_at :: number
  comment_user :: Author

record Post =
  post_id :: number
  post_user_id :: number
  post_content :: string
  image_url :: string
  likes_count :: number
  comments_count :: number
  post_created_at :: number
  post_updated_at :: number
  post_user :: Author
  comments :: "Comment list"
  is_liked :: bool

text \<open>
  The page reads \<^verbatim>\<open>user.permissions.can_like_post\<close>, \<^verbatim>\<open>can_create_post\<close> and
  \<^verbatim>\<open>can_create_comment\<close>; the declaration of \<^verbatim>\<open>User\<close> in src/config/api.ts has no
  such member, so the three flags are taken from the page's own reads.
\<close>

record Permissions =
  can_like_post :: bool
  can_create_post :: bool
  can_create_comment :: bool

record User =
  user_id :: number
  user_name :: string
  user_email :: string
  user_created_at :: string
  user_updated_at :: string
  permissions :: Permissions

record Pagination =
  total :: number
  per_page :: number
  current_page :: number
  last_page :: number

record PostsResponse =
  response_posts :: "Post list"
  response_pagination :: Pagination

record CommentResponse =
  response_comment :: Comment

record LikeResponse =
  response_is_liked :: bool
  response_likes_count :: number

subsection \<open>Calls of the client, and what awaiting one gives\<close>

text \<open>
  The method a handler calls, with the arguments it passes. \<open>GetPosts\<close> carries the
  argument list of the call site; the method itself is \<open>getPosts\<close> above.
\<close>

datatype api_call =
    GetPosts "number list"
  | LikePost number
  | UnlikePost number
  | CreateComment number string
  | CreatePostWithFile "(string \<times> form_value) list"

text \<open>
  \<^verbatim>\<open>await apiClient.f(...)\<close> inside a handler's \<^verbatim>\<open>try\<close>: the envelope, or an exception
  that lands in the handler's \<^verbatim>\<open>catch\<close>.
\<close>

datatype 'a awaited = Resolved 'a | Rejected

type_synonym 'd response = "('d, string) api_response awaited"

text \<open>\<^verbatim>\<open>response.message || fallback\<close> on the typed envelope.\<close>

definition str_or :: "string option \<Rightarrow> string \<Rightarrow> string" where
  "str_or m fallback = (case m of None \<Rightarrow> fallback | Some s \<Rightarrow> if s = [] then fallback else s)"

text \<open>
  \<^verbatim>\<open>String.prototype.trim\<close> on strings of code units below 256: the white space and
  line terminators there are TAB, LF, VT, FF, CR, SP and NBSP.
\<close>

definition js_whitespace :: "char \<Rightarrow> bool" where
  "js_whitespace c = (c \<in> {CHR 0x09, CHR 0x0A, CHR 0x0B, CHR 0x0C, CHR 0x0D, CHR 0x20, CHR 0xA0})"

definition js_trim :: "string \<Rightarrow> string" where
  "js_trim s = rev (dropWhile js_whitespace (rev (dropWhile js_whitespace s)))"

subsection \<open>State of the page\<close>

text \<open>
  The component \<^verbatim>\<open>DashboardPage\<close> with the feed (in the sources it follows the client,
  from line 247 of src/lib/api.ts on). These are the \<^verbatim>\<open>useState\<close> cells its handlers
  read or write. A handler is a closure of
  one render: it reads the cells as that render saw them (\<open>render\<close>), while
  \<^verbatim>\<open>setPosts(currentPosts => ...)\<close> transforms the cell as it is when the update is
  applied (\<open>cur\<close>). Each handler has one \<^verbatim>\<open>await\<close>; it is split there into a
  \<open>_begin\<close> part, which returns the call it issues together with the closure
  variables that outlive the \<^verbatim>\<open>await\<close>, and a \<open>_settle\<close> part. Run without anything
  in between, and from an up-to-date render, the two give the handler itself.
\<close>

record dashboard =
  user :: "User option"
  posts :: "Post list"
  newComment :: "number \<rightharpoonup> string"
  error :: "string option"
  pagination :: "Pagination option"
  hasMorePosts :: bool
  isLoadingMore :: bool
  isLoadingPosts :: bool

subsection \<open>handleLike\<close>

definition like_optimistic :: "number \<Rightarrow> Post list \<Rightarrow> Post list" where
  "like_optimistic postId currentPosts =
     map (\<lambda>p. if post_id p = postId
               then p\<lparr>is_liked := \<not> is_liked p,
                      likes_count := (if is_liked p then likes_count p - 1 else likes_count p + 1)\<rparr>
               else p) currentPosts"

definition like_revert :: "number \<Rightarrow> Post \<Rightarrow> Post list \<Rightarrow> Post list" where
  "like_revert postId post currentPosts =
     map (\<lambda>p. if post_id p = postId
               then p\<lparr>is_liked := is_liked post, likes_count := likes_count post\<rparr>
               else p) currentPosts"

definition handleLike_begin :: "dashboard \<Rightarrow> number \<Rightarrow> dashboard \<Rightarrow> dashboard \<times> (api_call \<times> Post) option" where
  "handleLike_begin render postId cur =
     (if \<not> (case user render of None \<Rightarrow> False | Some u \<Rightarrow> can_like_post (permissions u))
      then (cur\<lparr>error := Some ''You do not have permission to like posts.''\<rparr>, None)
      else
        (case find (\<lambda>p. post_id p = postId) (posts render) of
           None \<Rightarrow> (cur, None)
         | Some post \<Rightarrow>
             (cur\<lparr>posts := like_optimistic postId (posts cur)\<rparr>,
              Some (if is_liked post then UnlikePost postId else LikePost postId, post))))"

definition handleLike_settle :: "number \<Rightarrow> Post \<Rightarrow> LikeResponse response \<Rightarrow> dashboard \<Rightarrow> dashboard" where
  "handleLike_settle postId post outcome cur =
     (case outcome of
        Resolved response \<Rightarrow>
          if \<not> success response
          then cur\<lparr>posts := like_revert postId post (posts cur),
                   error := Some (str_or (message response) ''Failed to update like'')\<rparr>
          else cur
      | Rejected \<Rightarrow>
          cur\<lparr>posts := like_revert postId post (posts cur),
              error := Some ''Network error. Please try again.''\<rparr>)"

definition handleLike :: "dashboard \<Rightarrow> number \<Rightarrow> (api_call \<Rightarrow> LikeResponse response) \<Rightarrow> dashboard" where
  "handleLike d postId api =
     (case handleLike_begin d postId d of
        (d1, None) \<Rightarrow> d1
      | (d1, Some (call, post)) \<Rightarrow> handleLike_settle postId post (api call) d1)"

subsection \<open>handleComment\<close>

text \<open>
  The readings of \<^verbatim>\<open>Date.now()\<close> and \<^verbatim>\<open>Math.random()\<close> the handler takes, in the
  order it takes them.
\<close>

record readings =
  date_now_id :: number
  math_random :: number
  date_now_created :: number

definition comment_optimistic :: "number \<Rightarrow> Comment \<Rightarrow> Post list \<Rightarrow> Post list" where
  "comment_optimistic postId tempComment currentPosts =
     map (\<lambda>post. if post_id post = postId
                  then post\<lparr>comments := comments post @ [tempComment],
                            comments_count := comments_count post + 1\<rparr>
                  else post) currentPosts"

definition comment_confirm :: "number \<Rightarrow> Comment \<Rightarrow> Comment \<Rightarrow> Post list \<Rightarrow> Post list" where
  "comment_confirm postId tempComment real_comment currentPosts =
     map (\<lambda>post. if post_id post = postId
                  then post\<lparr>comments :=
                              map (\<lambda>c. if comment_id c = comment_id tempComment then real_comment else c)
                                (comments post)\<rparr>
                  else post) currentPosts"

definition comment_remove :: "number \<Rightarrow> Comment \<Rightarrow> Post list \<Rightarrow> Post list" where
  "comment_remove postId tempComment currentPosts =
     map (\<lambda>post. if post_id post = postId
                  then post\<lparr>comments := filter (\<lambda>c. comment_id c \<noteq> comment_id tempComment) (comments post),
                            comments_count := comments_count post - 1\<rparr>
                  else post) currentPosts"

definition handleComment_begin :: "dashboard \<Rightarrow> number \<Rightarrow> readings \<Rightarrow> dashboard \<Rightarrow> dashboard \<times> (api_call \<times> Comment) option" where
  "handleComment_begin render postId env cur =
     (case newComment render postId of
        None \<Rightarrow> (cur, None)
      | Some typed \<Rightarrow>
          (let commentText = js_trim typed in
           if commentText = [] then (cur, None)
           else
             (case user render of
                None \<Rightarrow> (cur, None)
              | Some u \<Rightarrow>
                  (let tempComment =
                         \<lparr>comment_id = date_now_id env + math_random env,
                          comment_post_id = postId,
                          comment_user_id = user_id u,
                          comment_content = commentText,
                          comment_created_at = of_int \<lfloor>date_now_created env / 1000\<rfloor>,
                          comment_user = \<lparr>author_id = user_id u, author_name = user_name u\<rparr>\<rparr>
                   in (cur\<lparr>posts := comment_optimistic postId tempComment (posts cur),
                           newComment := (newComment render)(postId \<mapsto> [])\<rparr>,
                       Some (CreateComment postId commentText, tempComment))))))"

definition handleComment_settle :: "number \<Rightarrow> Comment \<Rightarrow> CommentResponse response \<Rightarrow> dashboard \<Rightarrow> dashboard" where
  "handleComment_settle postId tempComment outcome cur =
     (case outcome of
        Resolved response \<Rightarrow>
          (case (if success response then data response else None) of
             Some payload \<Rightarrow>
               cur\<lparr>posts := comment_confirm postId tempComment (response_comment payload) (posts cur)\<rparr>
           | None \<Rightarrow>
               cur\<lparr>posts := comment_remove postId tempComment (posts cur),
                   error := Some (str_or (message response) ''Failed to add comment'')\<rparr>)
      | Rejected \<Rightarrow>
          cur\<lparr>posts := comment_remove postId tempComment (posts cur),
              error := Some ''Network error. Please try again.''\<rparr>)"

definition handleComment :: "dashboard \<Rightarrow> number \<Rightarrow> readings \<Rightarrow> (api_call \<Rightarrow> CommentResponse response) \<Rightarrow> dashboard" where
  "handleComment d postId env api =
     (case handleComment_begin d postId env d of
        (d1, None) \<Rightarrow> d1
      | (d1, Some (call, tempComment)) \<Rightarrow> handleComment_settle postId tempComment (api call) d1)"

subsection \<open>fetchPosts and loadMorePosts\<close>

definition fetchPosts_begin :: "dashboard \<Rightarrow> dashboard \<times> api_call" where
  "fetchPosts_begin cur = (cur\<lparr>isLoadingPosts := True, error := None\<rparr>, GetPosts [1, 10])"

definition fetchPosts_settle :: "PostsResponse response \<Rightarrow> dashboard \<Rightarrow> dashboard" where
  "fetchPosts_settle outcome cur =
     (case outcome of
        Resolved response \<Rightarrow>
          (case (if success response then data response else None) of
             Some payload \<Rightarrow>
               cur\<lparr>posts := response_posts payload,
                   pagination := Some (response_pagination payload),
                   hasMorePosts := (current_page (response_pagination payload)
                                      < last_page (response_pagination payload))\<rparr>
           | None \<Rightarrow> cur\<lparr>error := Some (str_or (message response) ''Failed to load posts'')\<rparr>)
      | Rejected \<Rightarrow> cur\<lparr>error := Some ''Network error. Please try again.''\<rparr>)
     \<lparr>isLoadingPosts := False\<rparr>"

definition loadMorePosts_begin :: "dashboard \<Rightarrow> dashboard \<Rightarrow> dashboard \<times> api_call option" where
  "loadMorePosts_begin render cur =
     (case pagination render of
        None \<Rightarrow> (cur, None)
      | Some pg \<Rightarrow>
          if \<not> hasMorePosts render then (cur, None)
          else if isLoadingMore render then (cur, None)
          else
            (let nextPage = current_page pg + 1
             in (cur\<lparr>isLoadingMore := True\<rparr>, Some (GetPosts [nextPage, 10]))))"

definition loadMorePosts_settle :: "PostsResponse response \<Rightarrow> dashboard \<Rightarrow> dashboard" where
  "loadMorePosts_settle outcome cur =
     (case outcome of
        Resolved response \<Rightarrow>
          (case (if success response then data response else None) of
             Some payload \<Rightarrow>
               cur\<lparr>posts := posts cur @ response_posts payload,
                   pagination := Some (response_pagination payload),
                   hasMorePosts := (current_page (response_pagination payload)
                                      < last_page (response_pagination payload))\<rparr>
           | None \<Rightarrow> cur\<lparr>error := Some (str_or (message response) ''Failed to load more posts'')\<rparr>)
      | Rejected \<Rightarrow> cur\<lparr>error := Some ''Network error. Please try again.''\<rparr>)
     \<lparr>isLoadingMore := False\<rparr>"

section \<open>The post form (components/PostForm.tsx)\<close>

record CreatePostRequest =
  form_content :: string
  form_image :: string

record post_form =
  isOpen :: bool
  isSubmitting :: bool
  selectedFile :: "upload option"
  imagePreview :: "string option"
  formData :: CreatePostRequest

text \<open>The two callbacks the form is given, as the calls it makes to them.\<close>

datatype form_callback = OnError string | OnPostCreated

definition handleSubmit_begin :: "post_form \<Rightarrow> post_form \<Rightarrow> post_form \<times> form_callback list \<times> api_call option" where
  "handleSubmit_begin render cur =
     (if js_trim (form_content (formData render)) = [] then
        (cur, [OnError ''Please fill in all fields and select an image''], None)
      else
        (case selectedFile render of
           None \<Rightarrow> (cur, [OnError ''Please fill in all fields and select an image''], None)
         | Some f \<Rightarrow>
             (cur\<lparr>isSubmitting := True\<rparr>, [],
              Some (CreatePostWithFile
                      [(''content'', FormText (form_content (formData render))),
                       (''image'', FormFile f)]))))"

definition handleSubmit_settle :: "Post response \<Rightarrow> post_form \<Rightarrow> post_form \<times> form_callback list" where
  "handleSubmit_settle outcome cur =
     (case outcome of
        Resolved response \<Rightarrow>
          if success response then
            (cur\<lparr>formData := \<lparr>form_content = [], form_image = []\<rparr>,
                 selectedFile := None, imagePreview := None, isOpen := False,
                 isSubmitting := False\<rparr>,
             [OnPostCreated])
          else
            (cur\<lparr>isSubmitting := False\<rparr>,
             [OnError (str_or (message response) ''Failed to create post'')])
      | Rejected \<Rightarrow>
          (cur\<lparr>isSubmitting := False\<rparr>, [OnError ''Network error. Please try again.'']))"

definition handleSubmit :: "post_form \<Rightarrow> (api_call \<Rightarrow> Post response) \<Rightarrow> post_form \<times> form_callback list \<times> api_call option" where
  "handleSubmit form api =
     (case handleSubmit_begin form form of
        (f1, calls, None) \<Rightarrow> (f1, calls, None)
      | (f1, calls, Some call) \<Rightarrow>
          (case handleSubmit_settle (api call) f1 of
             (f2, calls2) \<Rightarrow> (f2, calls @ calls2, Some call)))"

section \<open>Sample data\<close>

text \<open>Concrete states and answers on which the properties below are instantiated.\<close>

definition sample_user :: User where
  "sample_user =
     \<lparr>user_id = 7, user_name = ''ana'', user_email = ''ana@example.org'',
      user_created_at = ''2025-01-01'', user_updated_at = ''2025-01-01'',
      permissions = \<lparr>can_like_post = True, can_create_post = True, can_create_comment = True\<rparr>\<rparr>"

definition sample_guest :: User where
  "sample_guest =
     \<lparr>user_id = 8, user_name = ''guest'', user_email = ''guest@example.org'',
      user_created_at = ''2025-01-01'', user_updated_at = ''2025-01-01'',
      permissions = \<lparr>can_like_post = False, can_create_post = False, can_create_comment = False\<rparr>\<rparr>"

definition sample_post :: Post where
  "sample_post =
     \<lparr>post_id = 42, post_user_id = 3, post_content = ''hello'', image_url = ''/img/42.png'',
      likes_count = 10, comments_count = 0, post_created_at = 1700000000,
      post_updated_at = 1700000000,
      post_user = \<lparr>author_id = 3, author_name = ''bo''\<rparr>,
      comments = [], is_liked = False\<rparr>"

definition sample_page :: dashboard where
  "sample_page =
     \<lparr>user = Some sample_user, posts = [sample_post], newComment = Map.empty, error = None,
      pagination = Some \<lparr>total = 25, per_page = 10, current_page = 1, last_page = 3\<rparr>,
      hasMorePosts = True, isLoadingMore = False, isLoadingPosts = False\<rparr>"

definition sample_typing :: dashboard where
  "sample_typing = sample_page\<lparr>newComment := [42 \<mapsto> ''  nice '']\<rparr>"

definition sample_readings :: readings where
  "sample_readings =
     \<lparr>date_now_id = 1700000000123, math_random = 1/4, date_now_created = 1700000000124\<rparr>"

definition sample_server_comment :: Comment where
  "sample_server_comment =
     \<lparr>comment_id = 901, comment_post_id = 42, comment_user_id = 7, comment_content = ''nice'',
      comment_created_at = 1700000000, comment_user = \<lparr>author_id = 7, author_name = ''ana''\<rparr>\<rparr>"

definition sample_refusal :: "('d, string) api_response" where
  "sample_refusal =
     \<lparr>success = False, data = None, message = Some ''Post is locked'', errors = None\<rparr>"

definition sample_liked :: Post where
  "sample_liked = sample_post\<lparr>is_liked := True, likes_count := 11\<rparr>"

definition sample_form :: post_form where
  "sample_form =
     \<lparr>isOpen = True, isSubmitting = False, selectedFile = None, imagePreview = None,
      formData = \<lparr>form_content = ''sunset'', form_image = []\<rparr>\<rparr>"


definition sample_old_comment :: Comment where
  "sample_old_comment =
     \<lparr>comment_id = 5, comment_post_id = 42, comment_user_id = 3, comment_content = ''first'',
      comment_created_at = 1699999999, comment_user = \<lparr>author_id = 3, author_name = ''bo''\<rparr>\<rparr>"

definition sample_temp :: Comment where
  "sample_temp =
     \<lparr>comment_id = 1700000000123 + 1/4, comment_post_id = 42, comment_user_id = 7,
      comment_content = ''nice'', comment_created_at = 1700000000,
      comment_user = \<lparr>author_id = 7, author_name = ''ana''\<rparr>\<rparr>"

definition sample_later :: Comment where
  "sample_later =
     \<lparr>comment_id = 1700000000999 + 1/2, comment_post_id = 42, comment_user_id = 7,
      comment_content = ''again'', comment_created_at = 1700000000,
      comment_user = \<lparr>author_id = 7, author_name = ''ana''\<rparr>\<rparr>"

definition sample_thread :: Post where
  "sample_thread = sample_post\<lparr>comments := [sample_old_comment], comments_count := 1\<rparr>"

definition sample_other :: Post where
  "sample_other =
     sample_post\<lparr>post_id := 43, post_content := ''other'', likes_count := 3, is_liked := True\<rparr>"

definition sample_feed :: dashboard where
  "sample_feed = sample_typing\<lparr>posts := [sample_other, sample_thread]\<rparr>"

definition sample_overlap :: dashboard where
  "sample_overlap =
     sample_feed\<lparr>posts := [sample_other,
                            sample_post\<lparr>comments := [sample_old_comment, sample_temp, sample_later],
                                        comments_count := 3\<rparr>]\<rparr>"

definition sample_clash :: dashboard where
  "sample_clash =
     sample_typing\<lparr>posts := [sample_post\<lparr>comments := [sample_temp\<lparr>comment_content := ''first''\<rparr>],
                                          comments_count := 1\<rparr>]\<rparr>"

definition sample_created :: "Comment \<Rightarrow> (CommentResponse, string) api_response" where
  "sample_created c =
     \<lparr>success = True, data = Some \<lparr>response_comment = c\<rparr>, message = None, errors = None\<rparr>"

section \<open>Properties of the transport\<close>

lemma try_block_caught:
  "\<exists>r. try_catch (request_try x) request_catch = Inr r \<and>
       (request_try x = Inr r \<or>
        (success r = False \<and> data r = None \<and> errors r = None \<and>
         (\<exists>s. s \<noteq> [] \<and> message r = Some (JStr s))))"
  by (cases "request_try x")
     (auto simp: try_catch_def request_catch_def split: js_thrown.splits)


lemma request_on_abort:
  "getToken h = Inr token \<Longrightarrow>
   net (request_fetch self token endpoint options) = FetchRejected (JsError ''AbortError'' msg) \<Longrightarrow>
   request self net h endpoint options =
     Inr \<lparr>success = False, data = None,
          message = Some (JStr ''Request timeout. Please try again.''), errors = None\<rparr>"
  by (simp add: request_def try_catch_def request_try_def request_catch_def)

lemma request_timed_is_request:
  "getToken h = Inr token \<Longrightarrow>
   awaits (timeout self) (net (request_fetch self token endpoint options)) = Some (t, a, r) \<Longrightarrow>
   request_timed self net h endpoint options = Some (t, a, request self (\<lambda>q. r) h endpoint options)"
  by (simp add: request_timed_def request_def)

lemma request_timed_aborts_pending_fetch:
  "getToken h = Inr token \<Longrightarrow>
   (case fetch_at (net (request_fetch self token endpoint options)) of
      None \<Rightarrow> True | Some t \<Rightarrow> timeout self \<le> t) \<Longrightarrow>
   request_timed self net h endpoint options =
     Some (timeout self, True,
           Inr \<lparr>success = False, data = None,
                message = Some (JStr ''Request timeout. Please try again.''), errors = None\<rparr>)"
  by (auto simp: request_timed_def awaits_def abort_error_def try_catch_def request_try_def
      request_catch_def split: option.splits)

text \<open>
  C3, as the code has it. For every value \<open>X\<close>, a 200 response with the body
  \<^verbatim>\<open>{data: X}\<close> yields \<^verbatim>\<open>{success: true, data: X}\<close> when \<open>X\<close> is truthy, and the whole
  body as \<^verbatim>\<open>data\<close> when \<open>X\<close> is falsy (\<^verbatim>\<open>null\<close>, \<^verbatim>\<open>false\<close>, \<^verbatim>\<open>0\<close>, the empty
  string); a 200 response whose body is an object without a \<^verbatim>\<open>data\<close> key yields the whole
  body. A 422 response with the body \<^verbatim>\<open>{message: M, errors: E}\<close> yields
  \<^verbatim>\<open>{success: false, message: M, errors: E}\<close> when \<open>M\<close> is truthy, and the message
  \<^verbatim>\<open>An error occurred\<close> in place of a falsy \<open>M\<close>.
\<close>

theorem request_envelope_of_body:
  "request self (\<lambda>q. FetchResolved 200 (Inr (JObj [(''data'', X)]))) (Storage w) endpoint options =
     Inr \<lparr>success = True, data = Some (if truthy X then X else JObj [(''data'', X)]),
          message = None, errors = None\<rparr>
   \<and> (map_of (rev kvs) ''data'' = None \<longrightarrow>
        request self (\<lambda>q. FetchResolved 200 (Inr (JObj kvs))) (Storage w) endpoint options =
          Inr \<lparr>success = True, data = Some (JObj kvs),
               message = map_of (rev kvs) ''message'', errors = None\<rparr>)
   \<and> request self (\<lambda>q. FetchResolved 422 (Inr (JObj [(''message'', M), (''errors'', E)]))) (Storage w) endpoint options =
     Inr \<lparr>success = False, data = None,
          message = Some (if truthy M then M else JStr ''An error occurred''),
          errors = Some E\<rparr>"
  by (simp add: request_def getToken_def try_catch_def request_try_def response_ok_def js_or_def)

theorem request_envelope_of_body_witness:
  "map_of (rev [(''id'', JNum 5)]) ''data'' = None
   \<and> request (new_ApiClient None) (\<lambda>q. FetchResolved 200 (Inr (JObj [(''id'', JNum 5)]))) (Storage None) ''/me'' no_init
       = Inr \<lparr>success = True, data = Some (JObj [(''id'', JNum 5)]), message = None, errors = None\<rparr>
   \<and> request (new_ApiClient None)
         (\<lambda>q. FetchResolved 200 (Inr (JObj [(''data'', JObj [(''id'', JNum 5)])]))) (Storage None) ''/me'' no_init
       = Inr \<lparr>success = True, data = Some (JObj [(''id'', JNum 5)]), message = None, errors = None\<rparr>"
  using request_envelope_of_body [where kvs = "[(''id'', JNum 5)]" and self = "new_ApiClient None"
      and w = None and endpoint = "''/me''" and options = no_init and X = "JObj [(''id'', JNum 5)]"]
  by simp

text \<open>
  A body \<^verbatim>\<open>{data: 0}\<close> with status 200 does not come back as \<^verbatim>\<open>data: 0\<close>, and a 422
  body with an empty message does not keep that message.
\<close>

theorem request_envelope_falsy_data:
  "request (new_ApiClient None) (\<lambda>q. FetchResolved 200 (Inr (JObj [(''data'', JNum 0)]))) (Storage None) ''/me'' no_init
     \<noteq> Inr \<lparr>success = True, data = Some (JNum 0), message = None, errors = None\<rparr>
   \<and> request (new_ApiClient None) (\<lambda>q. FetchResolved 200 (Inr (JObj [(''data'', JNum 0)]))) (Storage None) ''/me'' no_init
     = Inr \<lparr>success = True, data = Some (JObj [(''data'', JNum 0)]), message = None, errors = None\<rparr>
   \<and> request (new_ApiClient None)
        (\<lambda>q. FetchResolved 422 (Inr (JObj [(''message'', JStr []), (''errors'', JNull)]))) (Storage None) ''/me'' no_init
     = Inr \<lparr>success = False, data = None, message = Some (JStr ''An error occurred''),
            errors = Some JNull\<rparr>"
  by (simp add: request_def getToken_def try_catch_def request_try_def response_ok_def js_or_def)

lemma transport_catches_in_try:
  assumes "getToken h = Inr token"
  shows "(\<exists>r. request self net h endpoint options = Inr r \<and>
       (request_try (net (request_fetch self token endpoint options)) = Inr r \<or>
        (success r = False \<and> data r = None \<and> errors r = None \<and>
         (\<exists>s. s \<noteq> [] \<and> message r = Some (JStr s)))))
   \<and> (\<exists>r. createPostWithFile self net h entries = Inr r \<and>
       (request_try (net (createPostWithFile_fetch self token entries)) = Inr r \<or>
        (success r = False \<and> data r = None \<and> errors r = None \<and>
         (\<exists>s. s \<noteq> [] \<and> message r = Some (JStr s)))))"
  using try_block_caught by (simp add: request_def createPostWithFile_def assms)

text \<open>
  C5, evaluated on the code. In a window that denies the page its storage,
  \<^verbatim>\<open>this.getToken()\<close> throws before the \<^verbatim>\<open>try\<close> of \<open>request\<close> and of
  \<open>createPostWithFile\<close> is entered: whatever the endpoint, the options and the network,
  both methods raise the thrown value to their caller and return no envelope.
\<close>

theorem transport_raises_storage_denied:
  "request self net (StorageDenied e) endpoint options = Inl e
   \<and> createPostWithFile self net (StorageDenied e) entries = Inl e
   \<and> getPosts self net (StorageDenied (JsError ''SecurityError'' ''The operation is insecure.'')) []
       = Inl (JsError ''SecurityError'' ''The operation is insecure.'')"
  by (simp add: request_def createPostWithFile_def getPosts_def getToken_def)

text \<open>
  C4, evaluated on the code. The budget of the client is 10000 ms. A response whose
  headers arrive after 50 ms clears the timer; if its body then never arrives, the call
  never settles and nothing is aborted, and if the body arrives after 20 seconds, the call
  settles then, with the envelope of the body and not with the timeout. Only a
  \<^verbatim>\<open>fetch\<close> that is still pending at 10000 ms is aborted and answered with the timeout
  envelope.
\<close>

theorem request_timer_stops_at_headers:
  "timeout (new_ApiClient None) = 10000
   \<and> request_timed (new_ApiClient None)
        (\<lambda>q. \<lparr>fetch_at = Some 50, fetch_gives = Inr 200, json_at = None, json_gives = Inr JNull\<rparr>)
        (Storage None) ''/me'' no_init
     = None
   \<and> request_timed (new_ApiClient None)
        (\<lambda>q. \<lparr>fetch_at = Some 50, fetch_gives = Inr 200, json_at = Some 20000,
               json_gives = Inr (JObj [(''data'', JObj [(''id'', JNum 5)])])\<rparr>)
        (Storage None) ''/me'' no_init
     = Some (20000, False,
             Inr \<lparr>success = True, data = Some (JObj [(''id'', JNum 5)]), message = None, errors = None\<rparr>)
   \<and> request_timed (new_ApiClient None)
        (\<lambda>q. \<lparr>fetch_at = None, fetch_gives = Inr 200, json_at = None, json_gives = Inr JNull\<rparr>)
        (Storage None) ''/me'' no_init
     = Some (10000, True,
             Inr \<lparr>success = False, data = None,
                  message = Some (JStr ''Request timeout. Please try again.''), errors = None\<rparr>)"
  by (simp add: request_timed_def awaits_def abort_error_def new_ApiClient_def API_CONFIG_TIMEOUT_def
      getToken_def try_catch_def request_try_def request_catch_def response_ok_def js_or_def)



section \<open>Properties of the feed handlers\<close>

subsection \<open>Lists keyed by an id\<close>

lemma find_distinct_key:
  "distinct (map f xs) \<Longrightarrow> p \<in> set xs \<Longrightarrow> find (\<lambda>q. f q = f p) xs = Some p"
  by (induction xs) (auto simp: image_iff)

lemma find_map_same_key:
  "(\<And>q. f (g q) = f q) \<Longrightarrow>
   find (\<lambda>q. f q = x) (map g xs) = map_option g (find (\<lambda>q. f q = x) xs)"
  by (induction xs) auto

lemma distinct_key_eq:
  "distinct (map f xs) \<Longrightarrow> p \<in> set xs \<Longrightarrow> q \<in> set xs \<Longrightarrow> f q = f p \<Longrightarrow> q = p"
  by (meson distinct_map inj_on_def)

subsection \<open>Likes\<close>

lemma like_revert_optimistic:
  assumes "distinct (map post_id ps)" and "p \<in> set ps"
  shows "like_revert (post_id p) p (like_optimistic (post_id p) ps) = ps"
proof -
  have "(if post_id q = post_id p
         then (q\<lparr>is_liked := \<not> is_liked q,
                 likes_count := (if is_liked q then likes_count q - 1 else likes_count q + 1)\<rparr>)
                \<lparr>is_liked := is_liked p, likes_count := likes_count p\<rparr>
         else q) = q" if "q \<in> set ps" for q
    using distinct_key_eq [OF assms that] by auto
  then show ?thesis
    unfolding like_revert_def like_optimistic_def
    by (simp add: map_idI comp_def if_distrib [of "\<lambda>x. post_id x"] cong: if_cong)
qed

lemma handleLike_begin_denied:
  "(case user render of None \<Rightarrow> True | Some v \<Rightarrow> \<not> can_like_post (permissions v)) \<Longrightarrow>
   handleLike_begin render P cur
     = (cur\<lparr>error := Some ''You do not have permission to like posts.''\<rparr>, None)"
  by (auto simp: handleLike_begin_def split: option.splits)

lemma handleLike_begin_allowed:
  "user render = Some u \<Longrightarrow> can_like_post (permissions u) \<Longrightarrow>
   find (\<lambda>q. post_id q = P) (posts render) = Some post \<Longrightarrow>
   handleLike_begin render P cur
     = (cur\<lparr>posts := like_optimistic P (posts cur)\<rparr>,
        Some (if is_liked post then UnlikePost P else LikePost P, post))"
  by (simp add: handleLike_begin_def)

lemma like_optimistic_nth:
  "i < length ps \<Longrightarrow> post_id (ps ! i) = P \<Longrightarrow>
   like_optimistic P ps ! i
     = (ps ! i)\<lparr>is_liked := \<not> is_liked (ps ! i),
                likes_count := (if is_liked (ps ! i) then likes_count (ps ! i) - 1
                                else likes_count (ps ! i) + 1)\<rparr>"
  by (simp add: like_optimistic_def)

lemma handleLike_settle_failure:
  assumes "case outcome of Rejected \<Rightarrow> True | Resolved r \<Rightarrow> \<not> success r"
  shows "posts (handleLike_settle P post outcome cur) = like_revert P post (posts cur)"
    and "error (handleLike_settle P post outcome cur)
           = Some (case outcome of
                     Rejected \<Rightarrow> ''Network error. Please try again.''
                   | Resolved r \<Rightarrow> str_or (message r) ''Failed to update like'')"
  using assms by (auto simp: handleLike_settle_def split: awaited.splits)

lemma like_revert_toggled_nth:
  assumes "j < length ps" and "post_id post = P"
    and "ps ! j = post\<lparr>is_liked := \<not> is_liked post,
                       likes_count := (if is_liked post then likes_count post - 1
                                       else likes_count post + 1)\<rparr>"
  shows "like_revert P post ps ! j = post"
  using assms by (simp add: like_revert_def)

lemma handleLike_up_to_date:
  assumes "user d = Some u" and "can_like_post (permissions u)"
    and "distinct (map post_id (posts d))" and "p \<in> set (posts d)"
    and "case api (if is_liked p then UnlikePost (post_id p) else LikePost (post_id p)) of
           Rejected \<Rightarrow> True | Resolved r \<Rightarrow> \<not> success r"
  shows "posts (handleLike d (post_id p) api) = posts d"
    and "error (handleLike d (post_id p) api)
           = Some (case api (if is_liked p then UnlikePost (post_id p) else LikePost (post_id p)) of
                     Rejected \<Rightarrow> ''Network error. Please try again.''
                   | Resolved r \<Rightarrow> str_or (message r) ''Failed to update like'')"
proof -
  have f: "find (\<lambda>q. post_id q = post_id p) (posts d) = Some p"
    using assms(3,4) by (rule find_distinct_key)
  have b: "handleLike_begin d (post_id p) d =
             (d\<lparr>posts := like_optimistic (post_id p) (posts d)\<rparr>,
              Some (if is_liked p then UnlikePost (post_id p) else LikePost (post_id p), p))"
    using assms(1,2) f by (rule handleLike_begin_allowed)
  show "posts (handleLike d (post_id p) api) = posts d"
    using handleLike_settle_failure(1) [OF assms(5)] like_revert_optimistic [OF assms(3,4)]
    by (simp add: handleLike_def b)
  show "error (handleLike d (post_id p) api)
           = Some (case api (if is_liked p then UnlikePost (post_id p) else LikePost (post_id p)) of
                     Rejected \<Rightarrow> ''Network error. Please try again.''
                   | Resolved r \<Rightarrow> str_or (message r) ''Failed to update like'')"
    using handleLike_settle_failure(2) [OF assms(5)] by (simp add: handleLike_def b)
qed

text \<open>
  C1, as the code has it. Without the permission \<^verbatim>\<open>can_like_post\<close> (or without a user)
  the like action changes no post and sends no call: it only sets the refusal as the
  error. With it, and with the post found in the handler's render, the action sends
  \<^verbatim>\<open>unlikePost\<close> or \<^verbatim>\<open>likePost\<close> and leaves every post of the current feed that has the
  id with \<^verbatim>\<open>is_liked\<close> negated and \<^verbatim>\<open>likes_count\<close> one lower (it was liked) or one
  higher (it was not). If the remote call answers \<^verbatim>\<open>success = false\<close> or faults, the
  error shown is the message of the envelope (a fixed text when it has none) or the
  network-error text, and a post that is, at the settlement, the captured post as the
  toggle left it is put back to exactly the captured post. So for a feed with distinct
  ids, handled from an up-to-date render and settled with nothing in between, the whole
  feed is again what it was before the action.
\<close>

theorem like_failure_restores_post:
  "((case user render of None \<Rightarrow> True | Some v \<Rightarrow> \<not> can_like_post (permissions v)) \<longrightarrow>
      handleLike_begin render P cur
        = (cur\<lparr>error := Some ''You do not have permission to like posts.''\<rparr>, None))
   \<and> (user render = Some u \<and> can_like_post (permissions u)
        \<and> find (\<lambda>q. post_id q = P) (posts render) = Some post \<longrightarrow>
        handleLike_begin render P cur
          = (cur\<lparr>posts := like_optimistic P (posts cur)\<rparr>,
             Some (if is_liked post then UnlikePost P else LikePost P, post))
      \<and> length (posts (fst (handleLike_begin render P cur))) = length (posts cur)
      \<and> (i < length (posts cur) \<and> post_id (posts cur ! i) = P \<longrightarrow>
           posts (fst (handleLike_begin render P cur)) ! i
             = (posts cur ! i)\<lparr>is_liked := \<not> is_liked (posts cur ! i),
                               likes_count := (if is_liked (posts cur ! i)
                                               then likes_count (posts cur ! i) - 1
                                               else likes_count (posts cur ! i) + 1)\<rparr>))
   \<and> ((case outcome of Rejected \<Rightarrow> True | Resolved r \<Rightarrow> \<not> success r) \<longrightarrow>
        error (handleLike_settle P captured outcome cur2)
          = Some (case outcome of
                    Rejected \<Rightarrow> ''Network error. Please try again.''
                  | Resolved r \<Rightarrow> str_or (message r) ''Failed to update like'')
      \<and> (j < length (posts cur2) \<and> post_id captured = P
          \<and> posts cur2 ! j
              = captured\<lparr>is_liked := \<not> is_liked captured,
                         likes_count := (if is_liked captured then likes_count captured - 1
                                         else likes_count captured + 1)\<rparr> \<longrightarrow>
           posts (handleLike_settle P captured outcome cur2) ! j = captured))
   \<and> (user d = Some u' \<and> can_like_post (permissions u')
        \<and> distinct (map post_id (posts d)) \<and> p \<in> set (posts d)
        \<and> (case api (if is_liked p then UnlikePost (post_id p) else LikePost (post_id p)) of
              Rejected \<Rightarrow> True | Resolved r \<Rightarrow> \<not> success r) \<longrightarrow>
        posts (handleLike d (post_id p) api) = posts d
      \<and> error (handleLike d (post_id p) api)
          = Some (case api (if is_liked p then UnlikePost (post_id p) else LikePost (post_id p)) of
                    Rejected \<Rightarrow> ''Network error. Please try again.''
                  | Resolved r \<Rightarrow> str_or (message r) ''Failed to update like''))"
proof (intro conjI impI)
  assume "case user render of None \<Rightarrow> True | Some v \<Rightarrow> \<not> can_like_post (permissions v)"
  then show "handleLike_begin render P cur
        = (cur\<lparr>error := Some ''You do not have permission to like posts.''\<rparr>, None)"
    by (rule handleLike_begin_denied)
next
  assume a: "user render = Some u \<and> can_like_post (permissions u)
        \<and> find (\<lambda>q. post_id q = P) (posts render) = Some post"
  then show b: "handleLike_begin render P cur
          = (cur\<lparr>posts := like_optimistic P (posts cur)\<rparr>,
             Some (if is_liked post then UnlikePost P else LikePost P, post))"
    by (simp add: handleLike_begin_allowed)
  show "length (posts (fst (handleLike_begin render P cur))) = length (posts cur)"
    by (simp add: b like_optimistic_def)
  assume "i < length (posts cur) \<and> post_id (posts cur ! i) = P"
  then show "posts (fst (handleLike_begin render P cur)) ! i
             = (posts cur ! i)\<lparr>is_liked := \<not> is_liked (posts cur ! i),
                               likes_count := (if is_liked (posts cur ! i)
                                               then likes_count (posts cur ! i) - 1
                                               else likes_count (posts cur ! i) + 1)\<rparr>"
    by (simp add: b like_optimistic_nth)
next
  assume f: "case outcome of Rejected \<Rightarrow> True | Resolved r \<Rightarrow> \<not> success r"
  then show "error (handleLike_settle P captured outcome cur2)
          = Some (case outcome of
                    Rejected \<Rightarrow> ''Network error. Please try again.''
                  | Resolved r \<Rightarrow> str_or (message r) ''Failed to update like'')"
    by (rule handleLike_settle_failure(2))
  assume "j < length (posts cur2) \<and> post_id captured = P
          \<and> posts cur2 ! j
              = captured\<lparr>is_liked := \<not> is_liked captured,
                         likes_count := (if is_liked captured then likes_count captured - 1
                                         else likes_count captured + 1)\<rparr>"
  then show "posts (handleLike_settle P captured outcome cur2) ! j = captured"
    using like_revert_toggled_nth [of j "posts cur2" captured P]
    by (simp add: handleLike_settle_failure(1) [OF f])
next
  assume a: "user d = Some u' \<and> can_like_post (permissions u')
        \<and> distinct (map post_id (posts d)) \<and> p \<in> set (posts d)
        \<and> (case api (if is_liked p then UnlikePost (post_id p) else LikePost (post_id p)) of
              Rejected \<Rightarrow> True | Resolved r \<Rightarrow> \<not> success r)"
  then show "posts (handleLike d (post_id p) api) = posts d"
    using handleLike_up_to_date(1) [of d u' p api] by blast
  from a show "error (handleLike d (post_id p) api)
          = Some (case api (if is_liked p then UnlikePost (post_id p) else LikePost (post_id p)) of
                    Rejected \<Rightarrow> ''Network error. Please try again.''
                  | Resolved r \<Rightarrow> str_or (message r) ''Failed to update like'')"
    using handleLike_up_to_date(2) [of d u' p api] by blast
qed

text \<open>
  In a feed of two posts, the post 42 with \<^verbatim>\<open>is_liked = false\<close>, \<^verbatim>\<open>likes_count = 10\<close>:
  liked optimistically it shows \<^verbatim>\<open>true\<close> and 11, and the refusal of the server takes it
  back to \<^verbatim>\<open>false\<close> and 10, with the server's message as the error; the guest's click
  changes nothing.
\<close>

theorem like_failure_restores_post_witness:
  "user (sample_feed\<lparr>user := Some sample_guest\<rparr>) = Some sample_guest
   \<and> \<not> can_like_post (permissions sample_guest)
   \<and> handleLike_begin (sample_feed\<lparr>user := Some sample_guest\<rparr>) 42 sample_feed
       = (sample_feed\<lparr>error := Some ''You do not have permission to like posts.''\<rparr>, None)
   \<and> user sample_feed = Some sample_user \<and> can_like_post (permissions sample_user)
   \<and> posts sample_feed = [sample_other, sample_thread]
   \<and> find (\<lambda>q. post_id q = 42) (posts sample_feed) = Some sample_thread
   \<and> post_id sample_other = 43 \<and> post_id sample_thread = 42
   \<and> is_liked sample_thread = False \<and> likes_count sample_thread = 10
   \<and> \<not> success (sample_refusal :: (LikeResponse, string) api_response)
   \<and> handleLike_begin sample_feed 42 sample_feed
       = (sample_feed\<lparr>posts := [sample_other, sample_thread\<lparr>is_liked := True, likes_count := 11\<rparr>]\<rparr>,
          Some (LikePost 42, sample_thread))
   \<and> posts (handleLike_settle 42 sample_thread (Resolved sample_refusal)
        (sample_feed\<lparr>posts := [sample_other, sample_thread\<lparr>is_liked := True, likes_count := 11\<rparr>]\<rparr>)) ! 1
       = sample_thread
   \<and> posts (handleLike sample_feed 42 (\<lambda>c. Resolved sample_refusal)) = [sample_other, sample_thread]
   \<and> error (handleLike sample_feed 42 (\<lambda>c. Resolved sample_refusal)) = Some ''Post is locked''"
  using like_failure_restores_post [where render = "sample_feed\<lparr>user := Some sample_guest\<rparr>"
      and P = 42 and cur = sample_feed]
    like_failure_restores_post [where render = sample_feed and P = 42 and cur = sample_feed
      and u = sample_user and post = sample_thread and i = 1
      and outcome = "Resolved sample_refusal" and captured = sample_thread and j = 1
      and ?cur2.0 = "sample_feed\<lparr>posts := [sample_other, sample_thread\<lparr>is_liked := True, likes_count := 11\<rparr>]\<rparr>"
      and d = sample_feed and u' = sample_user and p = sample_thread
      and api = "\<lambda>c. Resolved sample_refusal"]
  by (simp add: sample_feed_def sample_typing_def sample_page_def sample_post_def sample_thread_def
      sample_other_def sample_user_def sample_guest_def sample_refusal_def sample_old_comment_def
      str_or_def handleLike_def handleLike_begin_def handleLike_settle_def like_optimistic_def
      like_revert_def)

text \<open>
  Three like actions that are not rolled back to the values before the toggle. A user
  without the permission: nothing is toggled. A handler of a render that still shows the
  post unliked, run on a feed where it is liked with 11 likes: the refusal leaves it
  unliked with 10. A feed in which the id 42 occurs twice, with 10 and with 12 likes: after
  the refusal both copies have 10.
\<close>

theorem like_without_permission_no_toggle:
  "handleLike_begin (sample_page\<lparr>user := Some sample_guest\<rparr>) 42 (sample_page\<lparr>user := Some sample_guest\<rparr>)
     = (sample_page\<lparr>user := Some sample_guest,
                    error := Some ''You do not have permission to like posts.''\<rparr>, None)
   \<and> posts (handleLike (sample_page\<lparr>user := Some sample_guest\<rparr>) 42 (\<lambda>c. Resolved sample_refusal))
     = [sample_post]
   \<and> is_liked sample_post = False \<and> likes_count sample_post = 10
   \<and> handleLike_begin sample_page 42 (sample_page\<lparr>posts := [sample_liked]\<rparr>)
     = (sample_page, Some (LikePost 42, sample_post))
   \<and> posts (handleLike_settle 42 sample_post (Resolved sample_refusal) sample_page) = [sample_post]
   \<and> sample_post \<noteq> sample_liked
   \<and> posts (handleLike (sample_page\<lparr>posts := [sample_post, sample_post\<lparr>likes_count := 12\<rparr>]\<rparr>) 42
        (\<lambda>c. Resolved sample_refusal))
     = [sample_post, sample_post]
   \<and> sample_post\<lparr>likes_count := 12\<rparr> \<noteq> sample_post"
  by (simp add: handleLike_def handleLike_begin_def handleLike_settle_def like_optimistic_def
      like_revert_def sample_page_def sample_guest_def sample_user_def sample_post_def
      sample_liked_def sample_refusal_def)

subsection \<open>Comments\<close>

lemma comment_remove_optimistic:
  assumes "\<forall>q \<in> set ps. post_id q = P \<longrightarrow> (\<forall>c \<in> set (comments q). comment_id c \<noteq> comment_id tmp)"
  shows "comment_remove P tmp (comment_optimistic P tmp ps) = ps"
proof -
  have "filter (\<lambda>c. comment_id c \<noteq> comment_id tmp) (comments q) = comments q"
    if "q \<in> set ps" "post_id q = P" for q
    using assms that by (auto simp: filter_id_conv)
  then have "(if post_id q = P
         then (q\<lparr>comments := comments q @ [tmp], comments_count := comments_count q + 1\<rparr>)
                \<lparr>comments := filter (\<lambda>c. comment_id c \<noteq> comment_id tmp) (comments q @ [tmp]),
                 comments_count := comments_count q + 1 - 1\<rparr>
         else q) = q" if "q \<in> set ps" for q
    using that by auto
  then show ?thesis
    unfolding comment_remove_def comment_optimistic_def
    by (simp add: map_idI comp_def if_distrib [of "\<lambda>x. post_id x"] cong: if_cong)
qed

lemma comment_confirm_optimistic_nth:
  assumes "i < length ps" and "post_id (ps ! i) = P"
    and "\<forall>c \<in> set (comments (ps ! i)). comment_id c \<noteq> comment_id tmp"
  shows "comments (comment_confirm P tmp sc (comment_optimistic P tmp ps) ! i) = comments (ps ! i) @ [sc]"
    and "comments_count (comment_confirm P tmp sc (comment_optimistic P tmp ps) ! i) = comments_count (ps ! i) + 1"
proof -
  have "map (\<lambda>c. if comment_id c = comment_id tmp then sc else c) (comments (ps ! i)) = comments (ps ! i)"
    using assms(3) by (intro map_idI) auto
  then show "comments (comment_confirm P tmp sc (comment_optimistic P tmp ps) ! i) = comments (ps ! i) @ [sc]"
    and "comments_count (comment_confirm P tmp sc (comment_optimistic P tmp ps) ! i) = comments_count (ps ! i) + 1"
    using assms(1,2) by (simp_all add: comment_confirm_def comment_optimistic_def)
qed

lemma handleComment_begin_accepts:
  assumes "newComment d P = Some typed" and "js_trim typed \<noteq> []" and "user d = Some u"
  shows "handleComment_begin d P env cur =
           (cur\<lparr>posts := comment_optimistic P
                   \<lparr>comment_id = date_now_id env + math_random env,
                    comment_post_id = P,
                    comment_user_id = user_id u,
                    comment_content = js_trim typed,
                    comment_created_at = of_int \<lfloor>date_now_created env / 1000\<rfloor>,
                    comment_user = \<lparr>author_id = user_id u, author_name = user_name u\<rparr>\<rparr> (posts cur),
                 newComment := (newComment d)(P \<mapsto> [])\<rparr>,
            Some (CreateComment P (js_trim typed),
                   \<lparr>comment_id = date_now_id env + math_random env,
                    comment_post_id = P,
                    comment_user_id = user_id u,
                    comment_content = js_trim typed,
                    comment_created_at = of_int \<lfloor>date_now_created env / 1000\<rfloor>,
                    comment_user = \<lparr>author_id = user_id u, author_name = user_name u\<rparr>\<rparr>))"
  using assms by (simp add: handleComment_begin_def Let_def)

lemma handleComment_up_to_date:
  assumes "newComment d P = Some typed" and "js_trim typed \<noteq> []" and "user d = Some u"
    and "i < length (posts d)" and "post_id (posts d ! i) = P"
    and "\<forall>q \<in> set (posts d). post_id q = P \<longrightarrow>
           (\<forall>c \<in> set (comments q). comment_id c \<noteq> date_now_id env + math_random env)"
  shows "\<exists>tmp d1.
      handleComment_begin d P env d = (d1, Some (CreateComment P (js_trim typed), tmp))
    \<and> comment_id tmp = date_now_id env + math_random env
    \<and> comment_content tmp = js_trim typed
    \<and> comments (posts d1 ! i) = comments (posts d ! i) @ [tmp]
    \<and> comments_count (posts d1 ! i) = comments_count (posts d ! i) + 1
    \<and> newComment d1 P = Some []
    \<and> (api_ok (CreateComment P (js_trim typed)) = Resolved r \<and> success r \<and> data r = Some payload \<longrightarrow>
          comments (posts (handleComment d P env api_ok) ! i)
            = comments (posts d ! i) @ [response_comment payload]
        \<and> comments_count (posts (handleComment d P env api_ok) ! i) = comments_count (posts d ! i) + 1
        \<and> (comment_id (response_comment payload) \<noteq> comment_id tmp \<longrightarrow>
             (\<forall>c \<in> set (comments (posts (handleComment d P env api_ok) ! i)). comment_id c \<noteq> comment_id tmp))
        \<and> ((\<forall>c \<in> set (comments (posts d ! i)). comment_id c \<noteq> comment_id (response_comment payload))
             \<and> comment_content (response_comment payload) = js_trim typed \<longrightarrow>
             filter (\<lambda>c. comment_id c = comment_id (response_comment payload) \<and> comment_content c = js_trim typed)
               (comments (posts (handleComment d P env api_ok) ! i)) = [response_comment payload]))
    \<and> ((case api_fail (CreateComment P (js_trim typed)) of
           Rejected \<Rightarrow> True | Resolved r' \<Rightarrow> \<not> success r' \<or> data r' = None) \<longrightarrow>
          posts (handleComment d P env api_fail) = posts d
        \<and> error (handleComment d P env api_fail) \<noteq> None)"
proof -
  define tmp where "tmp =
     \<lparr>comment_id = date_now_id env + math_random env, comment_post_id = P,
      comment_user_id = user_id u, comment_content = js_trim typed,
      comment_created_at = of_int \<lfloor>date_now_created env / 1000\<rfloor>,
      comment_user = \<lparr>author_id = user_id u, author_name = user_name u\<rparr>\<rparr>"
  define d1 where "d1 = d\<lparr>posts := comment_optimistic P tmp (posts d), newComment := (newComment d)(P \<mapsto> [])\<rparr>"
  have b: "handleComment_begin d P env d = (d1, Some (CreateComment P (js_trim typed), tmp))"
    unfolding d1_def tmp_def by (rule handleComment_begin_accepts [OF assms(1-3)])
  have id: "comment_id tmp = date_now_id env + math_random env" and ct: "comment_content tmp = js_trim typed"
    by (simp_all add: tmp_def)
  have nth_in: "posts d ! i \<in> set (posts d)" using assms(4) by simp
  have fresh: "\<forall>q \<in> set (posts d). post_id q = P \<longrightarrow> (\<forall>c \<in> set (comments q). comment_id c \<noteq> comment_id tmp)"
    using assms(6) id by simp
  have fresh_i: "\<forall>c \<in> set (comments (posts d ! i)). comment_id c \<noteq> comment_id tmp"
    using assms(5) nth_in fresh by blast
  have o1: "comments (posts d1 ! i) = comments (posts d ! i) @ [tmp]"
    and o2: "comments_count (posts d1 ! i) = comments_count (posts d ! i) + 1"
    and o3: "newComment d1 P = Some []"
    using assms(4,5) by (simp_all add: d1_def comment_optimistic_def)
  have ok: "comments (posts (handleComment d P env api_ok) ! i) = comments (posts d ! i) @ [response_comment payload]
          \<and> comments_count (posts (handleComment d P env api_ok) ! i) = comments_count (posts d ! i) + 1"
    if "api_ok (CreateComment P (js_trim typed)) = Resolved r" "success r" "data r = Some payload"
  proof -
    have "posts (handleComment d P env api_ok)
            = comment_confirm P tmp (response_comment payload) (comment_optimistic P tmp (posts d))"
      using that by (simp add: handleComment_def b handleComment_settle_def d1_def)
    then show ?thesis
      using comment_confirm_optimistic_nth [OF assms(4,5) fresh_i] by simp
  qed
  have fail: "posts (handleComment d P env api_fail) = posts d \<and> error (handleComment d P env api_fail) \<noteq> None"
    if "case api_fail (CreateComment P (js_trim typed)) of
           Rejected \<Rightarrow> True | Resolved r' \<Rightarrow> \<not> success r' \<or> data r' = None"
    using that comment_remove_optimistic [OF fresh]
    by (auto simp: handleComment_def b handleComment_settle_def d1_def split: awaited.splits)
  show ?thesis
    apply (rule exI [of _ tmp], rule exI [of _ d1])
    using b id ct o1 o2 o3 ok fail fresh_i by (auto simp: filter_empty_conv)
qed

lemma comment_optimistic_nth:
  "i < length ps \<Longrightarrow> post_id (ps ! i) = P \<Longrightarrow>
   comments (comment_optimistic P tmp ps ! i) = comments (ps ! i) @ [tmp]
   \<and> comments_count (comment_optimistic P tmp ps ! i) = comments_count (ps ! i) + 1"
  by (simp add: comment_optimistic_def)

lemma comment_confirm_nth:
  "j < length ps \<Longrightarrow> post_id (ps ! j) = P \<Longrightarrow>
   comments (comment_confirm P tmp sc ps ! j)
     = map (\<lambda>c. if comment_id c = comment_id tmp then sc else c) (comments (ps ! j))
   \<and> comments_count (comment_confirm P tmp sc ps ! j) = comments_count (ps ! j)"
  by (simp add: comment_confirm_def)

lemma comment_remove_nth:
  "j < length ps \<Longrightarrow> post_id (ps ! j) = P \<Longrightarrow>
   comments (comment_remove P tmp ps ! j)
     = filter (\<lambda>c. comment_id c \<noteq> comment_id tmp) (comments (ps ! j))
   \<and> comments_count (comment_remove P tmp ps ! j) = comments_count (ps ! j) - 1"
  by (simp add: comment_remove_def)

lemma replace_by_id_between:
  assumes "\<forall>c \<in> set (xs @ ys). comment_id c \<noteq> comment_id tmp"
  shows "map (\<lambda>c. if comment_id c = comment_id tmp then sc else c) (xs @ [tmp] @ ys) = xs @ [sc] @ ys"
proof -
  have "map (\<lambda>c. if comment_id c = comment_id tmp then sc else c) zs = zs"
    if "set zs \<subseteq> set (xs @ ys)" for zs
    using assms that by (intro map_idI) auto
  from this [of xs] this [of ys] show ?thesis by simp
qed

lemma remove_by_id_between:
  assumes "\<forall>c \<in> set (xs @ ys). comment_id c \<noteq> comment_id tmp"
  shows "filter (\<lambda>c. comment_id c \<noteq> comment_id tmp) (xs @ [tmp] @ ys) = xs @ ys"
  using assms by (auto simp: filter_id_conv)

lemma handleComment_settle_success:
  "success r \<Longrightarrow> data r = Some payload \<Longrightarrow>
   handleComment_settle P tmp (Resolved r) cur
     = cur\<lparr>posts := comment_confirm P tmp (response_comment payload) (posts cur)\<rparr>"
  by (simp add: handleComment_settle_def)

lemma handleComment_settle_failure:
  "(case outcome of Rejected \<Rightarrow> True | Resolved r \<Rightarrow> \<not> success r \<or> data r = None) \<Longrightarrow>
   handleComment_settle P tmp outcome cur
     = cur\<lparr>posts := comment_remove P tmp (posts cur),
           error := Some (case outcome of
                            Rejected \<Rightarrow> ''Network error. Please try again.''
                          | Resolved r \<Rightarrow> str_or (message r) ''Failed to add comment'')\<rparr>"
  by (auto simp: handleComment_settle_def split: awaited.splits)

text \<open>
  C2, as the code has it. With a user loaded and a text under post \<open>P\<close> whose trimmed
  form is not empty, the submission appends to every post of the current feed with id
  \<open>P\<close> a provisional comment with the id \<^verbatim>\<open>Date.now() + Math.random()\<close> and the
  trimmed text, raises \<^verbatim>\<open>comments_count\<close> by one, clears the input and sends the trimmed
  text, all before the call settles. At the settlement, whatever the feed is by then: on
  success with a payload every comment with the provisional id is replaced by the
  server's comment and \<^verbatim>\<open>comments_count\<close> is left alone; on failure every comment with
  the provisional id is removed, \<^verbatim>\<open>comments_count\<close> is lowered by one and the error is
  set. When the provisional comment stands between comments none of which has its id, the
  others keep their places: the server's comment stands where the provisional one stood
  (and is the only one with the server's id when that id is new to the list, and no entry
  with the provisional id is left when the server's id differs from it), or, on failure,
  the list is the one without the provisional comment. So a submission from an up-to-date
  render with a fresh provisional id ends, on success, with the old list followed by the
  server's comment and the count one higher, and on failure with the feed as it was.
\<close>

theorem comment_submission_reconciles:
  "(newComment render P = Some typed \<and> js_trim typed \<noteq> [] \<and> user render = Some u \<longrightarrow>
      (\<exists>tmp. handleComment_begin render P env cur
                = (cur\<lparr>posts := comment_optimistic P tmp (posts cur),
                       newComment := (newComment render)(P \<mapsto> [])\<rparr>,
                   Some (CreateComment P (js_trim typed), tmp))
         \<and> comment_id tmp = date_now_id env + math_random env
         \<and> comment_content tmp = js_trim typed
         \<and> length (posts (fst (handleComment_begin render P env cur))) = length (posts cur)
         \<and> (i < length (posts cur) \<and> post_id (posts cur ! i) = P \<longrightarrow>
              comments (posts (fst (handleComment_begin render P env cur)) ! i)
                = comments (posts cur ! i) @ [tmp]
            \<and> comments_count (posts (fst (handleComment_begin render P env cur)) ! i)
                = comments_count (posts cur ! i) + 1)))
   \<and> (j < length (posts cur2) \<and> post_id (posts cur2 ! j) = P \<longrightarrow>
        (success r \<and> data r = Some payload \<longrightarrow>
           comments (posts (handleComment_settle P prov (Resolved r) cur2) ! j)
             = map (\<lambda>c. if comment_id c = comment_id prov then response_comment payload else c)
                 (comments (posts cur2 ! j))
         \<and> comments_count (posts (handleComment_settle P prov (Resolved r) cur2) ! j)
             = comments_count (posts cur2 ! j))
      \<and> ((case outcome of Rejected \<Rightarrow> True | Resolved r' \<Rightarrow> \<not> success r' \<or> data r' = None) \<longrightarrow>
           comments (posts (handleComment_settle P prov outcome cur2) ! j)
             = filter (\<lambda>c. comment_id c \<noteq> comment_id prov) (comments (posts cur2 ! j))
         \<and> comments_count (posts (handleComment_settle P prov outcome cur2) ! j)
             = comments_count (posts cur2 ! j) - 1
         \<and> error (handleComment_settle P prov outcome cur2)
             = Some (case outcome of
                       Rejected \<Rightarrow> ''Network error. Please try again.''
                     | Resolved r' \<Rightarrow> str_or (message r') ''Failed to add comment'')))
   \<and> (j < length (posts cur2) \<and> post_id (posts cur2 ! j) = P
        \<and> comments (posts cur2 ! j) = xs @ [prov] @ ys
        \<and> (\<forall>c \<in> set (xs @ ys). comment_id c \<noteq> comment_id prov) \<longrightarrow>
        (success r \<and> data r = Some payload \<longrightarrow>
           comments (posts (handleComment_settle P prov (Resolved r) cur2) ! j)
             = xs @ [response_comment payload] @ ys
         \<and> (comment_id (response_comment payload) \<noteq> comment_id prov \<longrightarrow>
              (\<forall>c \<in> set (comments (posts (handleComment_settle P prov (Resolved r) cur2) ! j)).
                 comment_id c \<noteq> comment_id prov))
         \<and> ((\<forall>c \<in> set (xs @ ys). comment_id c \<noteq> comment_id (response_comment payload)) \<longrightarrow>
              filter (\<lambda>c. comment_id c = comment_id (response_comment payload))
                (comments (posts (handleComment_settle P prov (Resolved r) cur2) ! j))
                = [response_comment payload]))
      \<and> ((case outcome of Rejected \<Rightarrow> True | Resolved r' \<Rightarrow> \<not> success r' \<or> data r' = None) \<longrightarrow>
           comments (posts (handleComment_settle P prov outcome cur2) ! j) = xs @ ys))
   \<and> (newComment d P = Some typed' \<and> js_trim typed' \<noteq> [] \<and> user d = Some u'
        \<and> k < length (posts d) \<and> post_id (posts d ! k) = P
        \<and> (\<forall>q \<in> set (posts d). post_id q = P \<longrightarrow>
              (\<forall>c \<in> set (comments q). comment_id c \<noteq> date_now_id env + math_random env)) \<longrightarrow>
        (api_ok (CreateComment P (js_trim typed')) = Resolved r2 \<and> success r2 \<and> data r2 = Some payload2 \<longrightarrow>
           comments (posts (handleComment d P env api_ok) ! k)
             = comments (posts d ! k) @ [response_comment payload2]
         \<and> comments_count (posts (handleComment d P env api_ok) ! k) = comments_count (posts d ! k) + 1)
      \<and> ((case api_fail (CreateComment P (js_trim typed')) of
             Rejected \<Rightarrow> True | Resolved r' \<Rightarrow> \<not> success r' \<or> data r' = None) \<longrightarrow>
           posts (handleComment d P env api_fail) = posts d
         \<and> error (handleComment d P env api_fail) \<noteq> None))"
proof (intro conjI)
  show "newComment render P = Some typed \<and> js_trim typed \<noteq> [] \<and> user render = Some u \<longrightarrow>
      (\<exists>tmp. handleComment_begin render P env cur
                = (cur\<lparr>posts := comment_optimistic P tmp (posts cur),
                       newComment := (newComment render)(P \<mapsto> [])\<rparr>,
                   Some (CreateComment P (js_trim typed), tmp))
         \<and> comment_id tmp = date_now_id env + math_random env
         \<and> comment_content tmp = js_trim typed
         \<and> length (posts (fst (handleComment_begin render P env cur))) = length (posts cur)
         \<and> (i < length (posts cur) \<and> post_id (posts cur ! i) = P \<longrightarrow>
              comments (posts (fst (handleComment_begin render P env cur)) ! i)
                = comments (posts cur ! i) @ [tmp]
            \<and> comments_count (posts (fst (handleComment_begin render P env cur)) ! i)
                = comments_count (posts cur ! i) + 1))"
  proof
    assume a: "newComment render P = Some typed \<and> js_trim typed \<noteq> [] \<and> user render = Some u"
    define tmp where "tmp =
       \<lparr>comment_id = date_now_id env + math_random env, comment_post_id = P,
        comment_user_id = user_id u, comment_content = js_trim typed,
        comment_created_at = of_int \<lfloor>date_now_created env / 1000\<rfloor>,
        comment_user = \<lparr>author_id = user_id u, author_name = user_name u\<rparr>\<rparr>"
    have b: "handleComment_begin render P env cur
                = (cur\<lparr>posts := comment_optimistic P tmp (posts cur),
                       newComment := (newComment render)(P \<mapsto> [])\<rparr>,
                   Some (CreateComment P (js_trim typed), tmp))"
      unfolding tmp_def using a by (intro handleComment_begin_accepts) simp_all
    show "\<exists>tmp. handleComment_begin render P env cur
                = (cur\<lparr>posts := comment_optimistic P tmp (posts cur),
                       newComment := (newComment render)(P \<mapsto> [])\<rparr>,
                   Some (CreateComment P (js_trim typed), tmp))
         \<and> comment_id tmp = date_now_id env + math_random env
         \<and> comment_content tmp = js_trim typed
         \<and> length (posts (fst (handleComment_begin render P env cur))) = length (posts cur)
         \<and> (i < length (posts cur) \<and> post_id (posts cur ! i) = P \<longrightarrow>
              comments (posts (fst (handleComment_begin render P env cur)) ! i)
                = comments (posts cur ! i) @ [tmp]
            \<and> comments_count (posts (fst (handleComment_begin render P env cur)) ! i)
                = comments_count (posts cur ! i) + 1)"
      apply (rule exI [of _ tmp])
      using comment_optimistic_nth [of i "posts cur" P tmp]
      by (simp add: b) (simp add: tmp_def comment_optimistic_def)
  qed
next
  show "j < length (posts cur2) \<and> post_id (posts cur2 ! j) = P \<longrightarrow>
        (success r \<and> data r = Some payload \<longrightarrow>
           comments (posts (handleComment_settle P prov (Resolved r) cur2) ! j)
             = map (\<lambda>c. if comment_id c = comment_id prov then response_comment payload else c)
                 (comments (posts cur2 ! j))
         \<and> comments_count (posts (handleComment_settle P prov (Resolved r) cur2) ! j)
             = comments_count (posts cur2 ! j))
      \<and> ((case outcome of Rejected \<Rightarrow> True | Resolved r' \<Rightarrow> \<not> success r' \<or> data r' = None) \<longrightarrow>
           comments (posts (handleComment_settle P prov outcome cur2) ! j)
             = filter (\<lambda>c. comment_id c \<noteq> comment_id prov) (comments (posts cur2 ! j))
         \<and> comments_count (posts (handleComment_settle P prov outcome cur2) ! j)
             = comments_count (posts cur2 ! j) - 1
         \<and> error (handleComment_settle P prov outcome cur2)
             = Some (case outcome of
                       Rejected \<Rightarrow> ''Network error. Please try again.''
                     | Resolved r' \<Rightarrow> str_or (message r') ''Failed to add comment''))"
    using comment_confirm_nth [of j "posts cur2" P prov] comment_remove_nth [of j "posts cur2" P prov]
    by (simp add: handleComment_settle_success handleComment_settle_failure)
next
  show "j < length (posts cur2) \<and> post_id (posts cur2 ! j) = P
        \<and> comments (posts cur2 ! j) = xs @ [prov] @ ys
        \<and> (\<forall>c \<in> set (xs @ ys). comment_id c \<noteq> comment_id prov) \<longrightarrow>
        (success r \<and> data r = Some payload \<longrightarrow>
           comments (posts (handleComment_settle P prov (Resolved r) cur2) ! j)
             = xs @ [response_comment payload] @ ys
         \<and> (comment_id (response_comment payload) \<noteq> comment_id prov \<longrightarrow>
              (\<forall>c \<in> set (comments (posts (handleComment_settle P prov (Resolved r) cur2) ! j)).
                 comment_id c \<noteq> comment_id prov))
         \<and> ((\<forall>c \<in> set (xs @ ys). comment_id c \<noteq> comment_id (response_comment payload)) \<longrightarrow>
              filter (\<lambda>c. comment_id c = comment_id (response_comment payload))
                (comments (posts (handleComment_settle P prov (Resolved r) cur2) ! j))
                = [response_comment payload]))
      \<and> ((case outcome of Rejected \<Rightarrow> True | Resolved r' \<Rightarrow> \<not> success r' \<or> data r' = None) \<longrightarrow>
           comments (posts (handleComment_settle P prov outcome cur2) ! j) = xs @ ys)"
  proof (intro impI)
    assume a: "j < length (posts cur2) \<and> post_id (posts cur2 ! j) = P
        \<and> comments (posts cur2 ! j) = xs @ [prov] @ ys
        \<and> (\<forall>c \<in> set (xs @ ys). comment_id c \<noteq> comment_id prov)"
    then have fresh: "\<forall>c \<in> set (xs @ ys). comment_id c \<noteq> comment_id prov" by blast
    have ok: "comments (posts (handleComment_settle P prov (Resolved r) cur2) ! j)
             = xs @ [response_comment payload] @ ys" if "success r" "data r = Some payload"
      using a that comment_confirm_nth [of j "posts cur2" P prov "response_comment payload"]
        replace_by_id_between [OF fresh, of "response_comment payload"]
      by (simp add: handleComment_settle_success)
    have fail: "comments (posts (handleComment_settle P prov outcome cur2) ! j) = xs @ ys"
      if "case outcome of Rejected \<Rightarrow> True | Resolved r' \<Rightarrow> \<not> success r' \<or> data r' = None"
      using a that comment_remove_nth [of j "posts cur2" P prov] remove_by_id_between [OF fresh]
      by (simp add: handleComment_settle_failure)
    show "(success r \<and> data r = Some payload \<longrightarrow>
           comments (posts (handleComment_settle P prov (Resolved r) cur2) ! j)
             = xs @ [response_comment payload] @ ys
         \<and> (comment_id (response_comment payload) \<noteq> comment_id prov \<longrightarrow>
              (\<forall>c \<in> set (comments (posts (handleComment_settle P prov (Resolved r) cur2) ! j)).
                 comment_id c \<noteq> comment_id prov))
         \<and> ((\<forall>c \<in> set (xs @ ys). comment_id c \<noteq> comment_id (response_comment payload)) \<longrightarrow>
              filter (\<lambda>c. comment_id c = comment_id (response_comment payload))
                (comments (posts (handleComment_settle P prov (Resolved r) cur2) ! j))
                = [response_comment payload]))
      \<and> ((case outcome of Rejected \<Rightarrow> True | Resolved r' \<Rightarrow> \<not> success r' \<or> data r' = None) \<longrightarrow>
           comments (posts (handleComment_settle P prov outcome cur2) ! j) = xs @ ys)"
      using ok fail fresh by (auto simp: filter_empty_conv)
  qed
next
  show "newComment d P = Some typed' \<and> js_trim typed' \<noteq> [] \<and> user d = Some u'
        \<and> k < length (posts d) \<and> post_id (posts d ! k) = P
        \<and> (\<forall>q \<in> set (posts d). post_id q = P \<longrightarrow>
              (\<forall>c \<in> set (comments q). comment_id c \<noteq> date_now_id env + math_random env)) \<longrightarrow>
        (api_ok (CreateComment P (js_trim typed')) = Resolved r2 \<and> success r2 \<and> data r2 = Some payload2 \<longrightarrow>
           comments (posts (handleComment d P env api_ok) ! k)
             = comments (posts d ! k) @ [response_comment payload2]
         \<and> comments_count (posts (handleComment d P env api_ok) ! k) = comments_count (posts d ! k) + 1)
      \<and> ((case api_fail (CreateComment P (js_trim typed')) of
             Rejected \<Rightarrow> True | Resolved r' \<Rightarrow> \<not> success r' \<or> data r' = None) \<longrightarrow>
           posts (handleComment d P env api_fail) = posts d
         \<and> error (handleComment d P env api_fail) \<noteq> None)"
    using handleComment_up_to_date [of d P typed' u' k env api_ok r2 payload2 api_fail]
    by blast
qed

text \<open>
  The text \<^verbatim>\<open>"  nice "\<close> under post 42, the second post of the feed, which already has
  a comment: the provisional comment with the id 1700000000123.25 is appended. Settled
  after a later provisional comment was appended behind it, the server's comment 901
  takes its place between the two others, and a refusal removes it from between them.
\<close>

theorem comment_submission_reconciles_witness:
  "newComment sample_feed 42 = Some ''  nice '' \<and> js_trim ''  nice '' = ''nice''
   \<and> user sample_feed = Some sample_user
   \<and> posts sample_feed = [sample_other, sample_thread]
   \<and> post_id sample_thread = 42 \<and> comments sample_thread = [sample_old_comment]
   \<and> comment_id sample_old_comment = 5 \<and> comment_id sample_temp = 1700000000123 + 1/4
   \<and> comment_id sample_later = 1700000000999 + 1/2 \<and> comment_id sample_server_comment = 901
   \<and> handleComment_begin sample_feed 42 sample_readings sample_feed
       = (sample_feed\<lparr>posts := [sample_other,
                                  sample_post\<lparr>comments := [sample_old_comment, sample_temp],
                                              comments_count := 2\<rparr>],
                       newComment := [42 \<mapsto> []]\<rparr>,
          Some (CreateComment 42 ''nice'', sample_temp))
   \<and> comments (posts sample_overlap ! 1) = [sample_old_comment] @ [sample_temp] @ [sample_later]
   \<and> posts (handleComment_settle 42 sample_temp (Resolved (sample_created sample_server_comment)) sample_overlap)
       = [sample_other,
          sample_post\<lparr>comments := [sample_old_comment, sample_server_comment, sample_later],
                      comments_count := 3\<rparr>]
   \<and> posts (handleComment_settle 42 sample_temp (Resolved sample_refusal) sample_overlap)
       = [sample_other,
          sample_post\<lparr>comments := [sample_old_comment, sample_later], comments_count := 2\<rparr>]
   \<and> error (handleComment_settle 42 sample_temp (Resolved sample_refusal) sample_overlap)
       = Some ''Post is locked''
   \<and> posts (handleComment sample_feed 42 sample_readings (\<lambda>c. Resolved (sample_created sample_server_comment)))
       = [sample_other,
          sample_post\<lparr>comments := [sample_old_comment, sample_server_comment], comments_count := 2\<rparr>]
   \<and> posts (handleComment sample_feed 42 sample_readings (\<lambda>c. Rejected)) = posts sample_feed"
  using comment_submission_reconciles [where render = sample_feed and P = 42 and typed = "''  nice ''"
      and u = sample_user and env = sample_readings and cur = sample_feed and i = 1
      and j = 1 and ?cur2.0 = sample_overlap and r = "sample_created sample_server_comment"
      and payload = "\<lparr>response_comment = sample_server_comment\<rparr>" and prov = sample_temp
      and outcome = "Resolved sample_refusal"
      and xs = "[sample_old_comment]" and ys = "[sample_later]"
      and d = sample_feed and typed' = "''  nice ''" and u' = sample_user and k = 1
      and api_ok = "\<lambda>c. Resolved (sample_created sample_server_comment)"
      and ?r2.0 = "sample_created sample_server_comment"
      and ?payload2.0 = "\<lparr>response_comment = sample_server_comment\<rparr>"
      and api_fail = "\<lambda>c. Rejected"]
  by (simp add: sample_feed_def sample_overlap_def sample_typing_def sample_page_def sample_post_def
      sample_thread_def sample_other_def sample_user_def sample_readings_def sample_temp_def
      sample_later_def sample_old_comment_def sample_server_comment_def sample_refusal_def
      sample_created_def js_trim_def js_whitespace_def
      handleComment_def handleComment_begin_def handleComment_settle_def
      comment_optimistic_def comment_confirm_def comment_remove_def str_or_def Let_def)

text \<open>
  Submissions that do not end as the sentence of the specification has it. Without a
  loaded user nothing is appended and nothing is sent. A provisional id that a comment of
  the list already carries: the refusal removes that comment too, and the list is not the
  one before the submission. A server that returns another content: no comment of the
  final list has the submitted content. A server that returns an id the list already
  holds: two comments have the server's id. A server that returns the provisional id
  itself: an entry with the provisional id is left.
\<close>

theorem comment_submission_unmet:
  "handleComment_begin (sample_feed\<lparr>user := None\<rparr>) 42 sample_readings sample_feed = (sample_feed, None)
   \<and> comments (posts sample_clash ! 0) = [sample_temp\<lparr>comment_content := ''first''\<rparr>]
   \<and> comments (posts (handleComment sample_clash 42 sample_readings (\<lambda>c. Resolved sample_refusal)) ! 0) = []
   \<and> filter (\<lambda>c. comment_content c = ''nice'')
        (comments (posts (handleComment sample_feed 42 sample_readings
           (\<lambda>c. Resolved (sample_created (sample_server_comment\<lparr>comment_content := ''n***''\<rparr>)))) ! 1))
       = []
   \<and> filter (\<lambda>c. comment_id c = 5)
        (comments (posts (handleComment sample_feed 42 sample_readings
           (\<lambda>c. Resolved (sample_created (sample_server_comment\<lparr>comment_id := 5\<rparr>)))) ! 1))
       = [sample_old_comment, sample_server_comment\<lparr>comment_id := 5\<rparr>]
   \<and> filter (\<lambda>c. comment_id c = 1700000000123 + 1/4)
        (comments (posts (handleComment sample_feed 42 sample_readings
           (\<lambda>c. Resolved (sample_created (sample_server_comment\<lparr>comment_id := 1700000000123 + 1/4\<rparr>)))) ! 1))
       = [sample_server_comment\<lparr>comment_id := 1700000000123 + 1/4\<rparr>]"
  by (simp add: sample_feed_def sample_clash_def sample_typing_def sample_page_def sample_post_def
      sample_thread_def sample_other_def sample_user_def sample_readings_def sample_temp_def
      sample_old_comment_def sample_server_comment_def sample_refusal_def
      sample_created_def js_trim_def js_whitespace_def
      handleComment_def handleComment_begin_def handleComment_settle_def
      comment_optimistic_def comment_confirm_def comment_remove_def str_or_def Let_def)

subsection \<open>Overlapping likes\<close>

text \<open>
  C7, evaluated on the code. Two like actions on post 42 overlap, and both remote calls
  are refused. The first action starts from \<^verbatim>\<open>(false, 10)\<close>, shows \<^verbatim>\<open>(true, 11)\<close> and
  sends \<^verbatim>\<open>likePost\<close>; the second starts from the re-rendered page, shows \<^verbatim>\<open>(false, 10)\<close>
  again and sends \<^verbatim>\<open>unlikePost\<close>. The rollback of the first writes \<^verbatim>\<open>(false, 10)\<close>; the
  rollback of the second then writes the values its closure captured, \<^verbatim>\<open>(true, 11)\<close>: the
  page ends liked with 11 likes although no call went through. The last line is the
  second click arriving before the page is rendered again: its closure still holds the
  unliked post, so it sends \<^verbatim>\<open>likePost\<close> a second time while the page toggles back to
  \<^verbatim>\<open>(false, 10)\<close>.
\<close>

theorem overlapping_likes_stale_rollback:
  "handleLike_begin sample_page 42 sample_page
     = (sample_page\<lparr>posts := [sample_liked]\<rparr>, Some (LikePost 42, sample_post))
   \<and> handleLike_begin (sample_page\<lparr>posts := [sample_liked]\<rparr>) 42 (sample_page\<lparr>posts := [sample_liked]\<rparr>)
     = (sample_page, Some (UnlikePost 42, sample_liked))
   \<and> posts (handleLike_settle 42 sample_post (Resolved sample_refusal) sample_page) = [sample_post]
   \<and> posts (handleLike_settle 42 sample_liked (Resolved sample_refusal)
        (handleLike_settle 42 sample_post (Resolved sample_refusal) sample_page))
     = [sample_liked]
   \<and> handleLike_begin sample_page 42 (sample_page\<lparr>posts := [sample_liked]\<rparr>)
     = (sample_page, Some (LikePost 42, sample_post))"
  by (simp add: handleLike_begin_def handleLike_settle_def like_optimistic_def like_revert_def
      sample_page_def sample_post_def sample_liked_def sample_user_def sample_refusal_def)

subsection \<open>Pagination\<close>

text \<open>
  C6, evaluated on the code. From a page at 1 of 3 the handler asks for
  \<^verbatim>\<open>getPosts(2, 10)\<close>, and after a successful answer for page 2 it asks for
  \<^verbatim>\<open>getPosts(3, 10)\<close>; the first load asks for \<^verbatim>\<open>getPosts(1, 10)\<close>. The method reads
  none of these arguments, so the three calls send the same request, to the posts
  endpoint without a page, and receive the same answer from any network.
\<close>

theorem loadMorePosts_repeats_request:
  "snd (fetchPosts_begin sample_page) = GetPosts [1, 10]
   \<and> snd (loadMorePosts_begin sample_page sample_page) = Some (GetPosts [2, 10])
   \<and> (let d2 = loadMorePosts_settle
                  (Resolved \<lparr>success = True,
                             data = Some \<lparr>response_posts = [],
                                          response_pagination =
                                            \<lparr>total = 25, per_page = 10, current_page = 2, last_page = 3\<rparr>\<rparr>,
                             message = None, errors = None\<rparr>)
                  (fst (loadMorePosts_begin sample_page sample_page))
      in snd (loadMorePosts_begin d2 d2) = Some (GetPosts [3, 10]))
   \<and> getPosts_fetch self token [2, 10] = getPosts_fetch self token [3, 10]
   \<and> getPosts_fetch self token [2, 10] = getPosts_fetch self token [1, 10]
   \<and> getPosts self net h [2, 10] = getPosts self net h [3, 10]
   \<and> req_url (getPosts_fetch self token [2, 10]) = baseURL self @ ''/post''"
  by (simp add: fetchPosts_begin_def loadMorePosts_begin_def loadMorePosts_settle_def sample_page_def
      getPosts_fetch_def getPosts_def request_fetch_def ENDPOINTS_POSTS_def Let_def)

subsection \<open>Validation before the call\<close>

text \<open>
  C9. When the input of post \<open>P\<close> is missing or trims to the empty string,
  \<open>handleComment\<close> issues no call and leaves the state of the page as it is. When the
  content of the post form trims to the empty string or no file is selected,
  \<open>handleSubmit\<close> issues no call, leaves the form as it is and reports the validation
  error through \<^verbatim>\<open>onError\<close>.
\<close>

theorem validation_short_circuits:
  "((case newComment d P of None \<Rightarrow> True | Some typed \<Rightarrow> js_trim typed = []) \<longrightarrow>
      handleComment_begin d P env cur = (cur, None) \<and> handleComment d P env api = d)
   \<and> ((js_trim (form_content (formData form)) = [] \<or> selectedFile form = None) \<longrightarrow>
      handleSubmit form api' = (form, [OnError ''Please fill in all fields and select an image''], None))"
  by (auto simp: handleComment_begin_def handleComment_def handleSubmit_def handleSubmit_begin_def
      split: option.splits)

theorem validation_short_circuits_witness:
  "newComment (sample_page\<lparr>newComment := [42 \<mapsto> ''   '']\<rparr>) 42 = Some ''   '' \<and> js_trim ''   '' = []
   \<and> handleComment_begin (sample_page\<lparr>newComment := [42 \<mapsto> ''   '']\<rparr>) 42 sample_readings sample_page
       = (sample_page, None)
   \<and> handleComment (sample_page\<lparr>newComment := [42 \<mapsto> ''   '']\<rparr>) 42 sample_readings (\<lambda>c. Rejected)
       = sample_page\<lparr>newComment := [42 \<mapsto> ''   '']\<rparr>
   \<and> selectedFile sample_form = None
   \<and> handleSubmit sample_form (\<lambda>c. Rejected)
       = (sample_form, [OnError ''Please fill in all fields and select an image''], None)"
  using validation_short_circuits [where d = "sample_page\<lparr>newComment := [42 \<mapsto> ''   '']\<rparr>" and P = 42
      and env = sample_readings and api = "\<lambda>c. Rejected" and cur = sample_page
      and form = sample_form and api' = "\<lambda>c. Rejected"]
  by (simp add: js_trim_def js_whitespace_def sample_form_def)

subsection \<open>Other posts are left alone\<close>

text \<open>
  C10. For a like or a comment action on post id \<open>P\<close>, every step of the handler (the
  optimistic update; the settlement, whether it confirms, rolls back or does nothing)
  keeps the length of the feed and leaves the post at every position whose id is not
  \<open>P\<close> as it was, whatever the render the handler closed over and whatever the outcome.
\<close>

theorem handlers_frame_other_posts:
  assumes "i < length (posts cur)" and "post_id (posts cur ! i) \<noteq> P"
  shows "length (posts (fst (handleLike_begin render P cur))) = length (posts cur)
       \<and> posts (fst (handleLike_begin render P cur)) ! i = posts cur ! i
       \<and> length (posts (handleLike_settle P snap outcome cur)) = length (posts cur)
       \<and> posts (handleLike_settle P snap outcome cur) ! i = posts cur ! i
       \<and> length (posts (fst (handleComment_begin render P env cur))) = length (posts cur)
       \<and> posts (fst (handleComment_begin render P env cur)) ! i = posts cur ! i
       \<and> length (posts (handleComment_settle P tmp outcome' cur)) = length (posts cur)
       \<and> posts (handleComment_settle P tmp outcome' cur) ! i = posts cur ! i"
  using assms
  by (auto simp: handleLike_begin_def handleLike_settle_def handleComment_begin_def
      handleComment_settle_def like_optimistic_def like_revert_def comment_optimistic_def
      comment_confirm_def comment_remove_def Let_def
      split: option.splits awaited.splits)

theorem handlers_frame_other_posts_witness:
  "(1::nat) < length [sample_post, sample_post\<lparr>post_id := 43\<rparr>]
   \<and> post_id ([sample_post, sample_post\<lparr>post_id := 43\<rparr>] ! 1) \<noteq> 42
   \<and> posts (fst (handleLike_begin sample_page 42
        (sample_page\<lparr>posts := [sample_post, sample_post\<lparr>post_id := 43\<rparr>]\<rparr>)))
       = [sample_liked, sample_post\<lparr>post_id := 43\<rparr>]
   \<and> posts (handleLike_settle 42 sample_post Rejected
        (sample_page\<lparr>posts := [sample_liked, sample_post\<lparr>post_id := 43\<rparr>]\<rparr>))
       = [sample_post, sample_post\<lparr>post_id := 43\<rparr>]
   \<and> posts (fst (handleComment_begin sample_typing 42 sample_readings
        (sample_page\<lparr>posts := [sample_post, sample_post\<lparr>post_id := 43\<rparr>]\<rparr>))) ! 1
       = sample_post\<lparr>post_id := 43\<rparr>
   \<and> posts (handleComment_settle 42 sample_server_comment Rejected
        (sample_page\<lparr>posts := [sample_post, sample_post\<lparr>post_id := 43\<rparr>]\<rparr>)) ! 1
       = sample_post\<lparr>post_id := 43\<rparr>"
  using handlers_frame_other_posts [where cur = "sample_page\<lparr>posts := [sample_post, sample_post\<lparr>post_id := 43\<rparr>]\<rparr>"
      and i = 1 and P = 42 and render = sample_page and snap = sample_post and outcome = Rejected]
    handlers_frame_other_posts [where cur = "sample_page\<lparr>posts := [sample_post, sample_post\<lparr>post_id := 43\<rparr>]\<rparr>"
      and i = 1 and P = 42 and render = sample_typing and env = sample_readings
      and tmp = sample_server_comment and outcome' = Rejected]
  by (simp add: sample_page_def sample_post_def sample_liked_def sample_user_def sample_typing_def
      sample_readings_def sample_server_comment_def js_trim_def js_whitespace_def
      handleLike_begin_def handleLike_settle_def handleComment_begin_def handleComment_settle_def
      like_optimistic_def like_revert_def comment_optimistic_def comment_remove_def Let_def)

end
